theory Spec2Isabelle
  imports Main
begin

section \<open>Strings, errors and JSON values\<close>

text \<open>
  A Python \<open>str\<close> is a sequence of Unicode code points; it is modelled as a list of
  natural numbers, one per code point. \<open>ascii\<close> turns an ASCII literal of the source
  into such a list.
\<close>

type_synonym ustring = "nat list"

definition ascii :: "string \<Rightarrow> ustring" where
  "ascii s = map of_char s"

text \<open>The exceptions that the modelled code can raise or receive from a collaborator.\<close>

datatype py_error =
    TypeError
  | AttributeError
  | KeyError
  | ValueError
  | OSError
  | UnicodeEncodeError
  | TimeoutExpired
  | OtherError

text \<open>
  \<open>str.strip()\<close> removes leading and trailing whitespace, where whitespace is what
  \<open>str.isspace\<close> accepts.
\<close>

definition py_isspace :: "nat \<Rightarrow> bool" where
  "py_isspace c =
     ((9 \<le> c \<and> c \<le> 13) \<or> (28 \<le> c \<and> c \<le> 32) \<or> c = 133 \<or> c = 160
      \<or> c = 5760 \<or> (8192 \<le> c \<and> c \<le> 8202) \<or> c = 8232 \<or> c = 8233
      \<or> c = 8239 \<or> c = 8287 \<or> c = 12288)"

definition py_strip :: "ustring \<Rightarrow> ustring" where
  "py_strip s = rev (dropWhile py_isspace (rev (dropWhile py_isspace s)))"

text \<open>Sequencing of steps that can raise: the first exception ends the computation.\<close>

definition then_do :: "py_error + 'a \<Rightarrow> ('a \<Rightarrow> py_error + 'b) \<Rightarrow> py_error + 'b" where
  "then_do r f = (case r of Inl e \<Rightarrow> Inl e | Inr x \<Rightarrow> f x)"

text \<open>
  The values of type \<open>Any\<close> that reach the handlers come from JSON documents. A
  finite float is kept as mantissa and binary exponent (every finite double is
  \<open>m * 2 ^ e\<close>). Python's parser also accepts \<open>NaN\<close>, \<open>Infinity\<close> and
  \<open>-Infinity\<close>, which are the non-finite floats. A \<open>dict\<close> is an association list in
  insertion order, with distinct keys.
\<close>

datatype nonfinite = NaN | PosInf | NegInf

datatype json =
    JNull
  | JBool bool
  | JInt int
  | JFloat int int
  | JNonFinite nonfinite
  | JStr ustring
  | JList "json list"
  | JObj "(ustring \<times> json) list"

type_synonym pydict = "(ustring \<times> json) list"

text \<open>Truth value of an object, as \<open>if x:\<close> tests it.\<close>

fun truthy :: "json \<Rightarrow> bool" where
  "truthy JNull = False"
| "truthy (JBool b) = b"
| "truthy (JInt i) = (i \<noteq> 0)"
| "truthy (JFloat m e) = (m \<noteq> 0)"
| "truthy (JNonFinite x) = True"
| "truthy (JStr s) = (s \<noteq> [])"
| "truthy (JList xs) = (xs \<noteq> [])"
| "truthy (JObj kvs) = (kvs \<noteq> [])"

text \<open>\<open>d.get(k)\<close> (\<open>None\<close> when the key is absent) and \<open>d.get(k, default)\<close>.\<close>

definition dict_get :: "pydict \<Rightarrow> ustring \<Rightarrow> json" where
  "dict_get d k = (case map_of d k of None \<Rightarrow> JNull | Some v \<Rightarrow> v)"

definition dict_get_default :: "pydict \<Rightarrow> ustring \<Rightarrow> json \<Rightarrow> json" where
  "dict_get_default d k dflt = (case map_of d k of None \<Rightarrow> dflt | Some v \<Rightarrow> v)"

text \<open>
  \<open>x.get\<close> and \<open>x.items\<close> exist on a \<open>dict\<close> only; on any other object the
  attribute lookup raises \<open>AttributeError\<close>.
\<close>

fun as_dict :: "json \<Rightarrow> py_error + pydict" where
  "as_dict (JObj d) = Inr d"
| "as_dict v = Inl AttributeError"

text \<open>
  \<open>for x in v\<close>: a list gives its elements, a string its characters (as one-character
  strings), a \<open>dict\<close> its keys; anything else is not iterable.
\<close>

fun py_iter :: "json \<Rightarrow> py_error + json list" where
  "py_iter (JList xs) = Inr xs"
| "py_iter (JStr s) = Inr (map (\<lambda>c. JStr [c]) s)"
| "py_iter (JObj d) = Inr (map (\<lambda>kv. JStr (fst kv)) d)"
| "py_iter v = Inl TypeError"

text \<open>
  The slice \<open>v[-n:]\<close>: the last \<open>n\<close> elements of a list or a string (all of it when
  it is shorter). On a \<open>dict\<close> the slice is taken as a key, and a slice is not
  hashable: \<open>TypeError\<close> (up to Python 3.11; from 3.12 on a slice is hashable and the
  lookup raises \<open>KeyError\<close>, which the handler answers in the same way). The other
  objects are not subscriptable: \<open>TypeError\<close> too.
\<close>

fun py_last_slice :: "nat \<Rightarrow> json \<Rightarrow> py_error + json" where
  "py_last_slice n (JList xs) = Inr (JList (drop (length xs - n) xs))"
| "py_last_slice n (JStr s) = Inr (JStr (drop (length s - n) s))"
| "py_last_slice n (JObj d) = Inl TypeError"
| "py_last_slice n v = Inl TypeError"

text \<open>Decimal digits of a natural number, and \<open>str\<close> of an \<open>int\<close>.\<close>

fun dec :: "nat \<Rightarrow> ustring" where
  "dec n = (if n < 10 then [48 + n] else dec (n div 10) @ [48 + n mod 10])"

declare dec.simps [simp del]

definition str_int :: "int \<Rightarrow> ustring" where
  "str_int i = (if i < 0 then 45 # dec (nat (- i)) else dec (nat i))"

text \<open>
  \<open>f"{v}"\<close> in an f-string. A string is inserted as it is, an integer in decimal,
  \<open>True\<close>, \<open>False\<close> and \<open>None\<close> by name. The text of a float, a list or a \<open>dict\<close>
  (Python's \<open>repr\<close> of them) is left to the parameter \<open>fmt\<close>.
\<close>

fun py_format :: "(json \<Rightarrow> ustring) \<Rightarrow> json \<Rightarrow> ustring" where
  "py_format fmt (JStr s) = s"
| "py_format fmt (JInt i) = str_int i"
| "py_format fmt (JBool b) = (if b then ascii ''True'' else ascii ''False'')"
| "py_format fmt JNull = ascii ''None''"
| "py_format fmt v = fmt v"

text \<open>
  \<open>JSONResponse(content)\<close> renders its content when it is built, with
  \<open>allow_nan=False\<close>: a non-finite float anywhere in the content raises
  \<open>ValueError\<close>. \<open>json_finite\<close> says that a value has none.
\<close>

fun json_finite :: "json \<Rightarrow> bool" where
  "json_finite (JNonFinite x) = False"
| "json_finite (JList xs) = list_all json_finite xs"
| "json_finite (JObj kvs) = list_all json_finite (map snd kvs)"
| "json_finite v = True"

section \<open>Language detection\<close>

text \<open>
  The character class compiled by \<open>detect_language\<close>: the three ranges
  U+0600-U+06FF, U+0750-U+077F and U+08A0-U+08FF.
\<close>

definition arabic_char :: "nat \<Rightarrow> bool" where
  "arabic_char c =
     ((0x0600 \<le> c \<and> c \<le> 0x06FF) \<or> (0x0750 \<le> c \<and> c \<le> 0x077F)
      \<or> (0x08A0 \<le> c \<and> c \<le> 0x08FF))"

text \<open>\<open>arabic_pattern.search(text)\<close> finds a match iff some code point is in the class.\<close>

definition arabic_pattern_search :: "ustring \<Rightarrow> bool" where
  "arabic_pattern_search text = list_ex arabic_char text"

text \<open>
  \<open>detect\<close> of the langdetect package is a collaborator: it returns a language code
  or raises. It is a parameter of the model. The body of the \<open>try\<close> block and the
  \<open>except Exception\<close> handler are kept apart.
\<close>

type_synonym detector = "ustring \<Rightarrow> py_error + ustring"

definition detect_language_try :: "detector \<Rightarrow> ustring \<Rightarrow> py_error + ustring" where
  "detect_language_try detect text =
     (if arabic_pattern_search text then Inr (ascii ''ar'')
      else (case detect text of
              Inl e \<Rightarrow> Inl e
            | Inr lang \<Rightarrow> Inr (if lang = ascii ''ar'' then ascii ''ar'' else ascii ''en'')))"

definition detect_language :: "detector \<Rightarrow> ustring \<Rightarrow> ustring" where
  "detect_language detect text =
     (case detect_language_try detect text of
        Inl e \<Rightarrow> ascii ''en''
      | Inr tag \<Rightarrow> tag)"

section \<open>Patient context\<close>

text \<open>The rule \<open>"=" * 50\<close> and the bullets of the two branches.\<close>

definition rule50 :: ustring where
  "rule50 = replicate 50 61"

definition bullet_ar :: ustring where
  "bullet_ar = [8226] @ ascii '' ''"

definition bullet_en :: ustring where
  "bullet_en = ascii ''   '' @ [8226] @ ascii '' ''"

text \<open>The headings of the Arabic branch, as the code points of the source's literals.\<close>

definition title_ar :: ustring where
  "title_ar = [9888, 65039] @ ascii '' '' @ [1605, 1593, 1604, 1608, 1605, 1575, 1578]
     @ ascii '' '' @ [1575, 1604, 1605, 1585, 1610, 1590] @ ascii '' ''
     @ [1575, 1604, 1605, 1607, 1605, 1577] @ ascii '' - '' @ [1610, 1580, 1576] @ ascii '' ''
     @ [1605, 1585, 1575, 1593, 1575, 1578, 1607, 1575] @ ascii '' '' @ [1601, 1610]
     @ ascii '' '' @ [1603, 1604] @ ascii '' '' @ [1585, 1583] @ ascii '':'' @ [10]"

definition name_ar :: ustring where
  "name_ar = [128100] @ ascii '' '' @ [1575, 1604, 1575, 1587, 1605] @ ascii '': ''"

definition age_ar :: ustring where
  "age_ar = [128197] @ ascii '' '' @ [1575, 1604, 1593, 1605, 1585] @ ascii '': ''"

definition gender_ar :: ustring where
  "gender_ar = [9895] @ ascii '' '' @ [1575, 1604, 1580, 1606, 1587] @ ascii '': ''"

definition history_ar :: ustring where
  "history_ar = [10, 128203] @ ascii '' '' @ [1575, 1604, 1578, 1575, 1585, 1610, 1582]
     @ ascii '' '' @ [1575, 1604, 1591, 1576, 1610] @ ascii '':'' @ [10]"

definition medications_ar :: ustring where
  "medications_ar = [10, 128138] @ ascii '' '' @ [1575, 1604, 1571, 1583, 1608, 1610, 1577]
     @ ascii '' '' @ [1575, 1604, 1581, 1575, 1604, 1610, 1577] @ ascii '':'' @ [10]"

definition allergies_ar :: ustring where
  "allergies_ar = [10, 9888, 65039] @ ascii '' ''
     @ [1575, 1604, 1581, 1587, 1575, 1587, 1610, 1575, 1578] @ ascii '':'' @ [10]"

definition visits_ar :: ustring where
  "visits_ar = [10, 128197] @ ascii '' '' @ [1575, 1604, 1586, 1610, 1575, 1585, 1575, 1578]
     @ ascii '' '' @ [1575, 1604, 1587, 1575, 1576, 1602, 1577] @ ascii '':'' @ [10]"

text \<open>The headings of the English branch.\<close>

definition title_en :: ustring where
  "title_en = [9888, 65039]
     @ ascii '' IMPORTANT PATIENT INFORMATION - Consider in EVERY response:'' @ [10]"

definition name_en :: ustring where
  "name_en = [128100] @ ascii '' Name: ''"

definition age_en :: ustring where
  "age_en = [128197] @ ascii '' Age: ''"

definition gender_en :: ustring where
  "gender_en = [9895] @ ascii '' Gender: ''"

definition history_en :: ustring where
  "history_en = [10, 127973] @ ascii '' KNOWN MEDICAL CONDITIONS (CRITICAL):'' @ [10]"

definition medications_en :: ustring where
  "medications_en = [10, 128138] @ ascii '' CURRENT MEDICATIONS (Check for interactions):'' @ [10]"

definition allergies_en :: ustring where
  "allergies_en = [10, 128680] @ ascii '' ALLERGIES (NEVER recommend these):'' @ [10]"

definition visits_en :: ustring where
  "visits_en = [10, 128203] @ ascii '' RECENT VISIT HISTORY:'' @ [10]"

definition vitals_en :: ustring where
  "vitals_en = [10, 128202] @ ascii '' LAST RECORDED VITALS:'' @ [10]"

text \<open>The closing block, appended in both branches (lines 169 to 174).\<close>

definition instructions :: ustring where
  "instructions = [10] @ rule50 @ [10]
     @ [9888, 65039] @ ascii '' INSTRUCTIONS: Always consider this patient'' @ [39]
     @ ascii ''s history when giving advice.'' @ [10]
     @ ascii ''   - Check allergies before recommending any medication'' @ [10]
     @ ascii ''   - Consider existing conditions and current medications'' @ [10]
     @ ascii ''   - Reference their history when relevant to build trust'' @ [10]
     @ rule50 @ [10]"

text \<open>
  The block \<open>if patient_data.get("personal_info"): ...\<close>, the same in both branches up
  to its three labels. \<open>info.get\<close> needs \<open>info\<close> to be a \<open>dict\<close>.
\<close>

definition add_personal_info ::
  "(json \<Rightarrow> ustring) \<Rightarrow> ustring \<Rightarrow> ustring \<Rightarrow> ustring \<Rightarrow> pydict \<Rightarrow> ustring
     \<Rightarrow> py_error + ustring" where
  "add_personal_info fmt l_name l_age l_gender patient_data context =
     (if truthy (dict_get patient_data (ascii ''personal_info'')) then
        then_do (as_dict (dict_get patient_data (ascii ''personal_info''))) (\<lambda>info.
          Inr (context
            @ l_name @ py_format fmt (dict_get_default info (ascii ''name'') (JStr (ascii ''N/A''))) @ [10]
            @ l_age @ py_format fmt (dict_get_default info (ascii ''age'') (JStr (ascii ''N/A''))) @ [10]
            @ l_gender @ py_format fmt (dict_get_default info (ascii ''gender'') (JStr (ascii ''N/A''))) @ [10]))
      else Inr context)"

text \<open>The loop \<open>for x in xs: context += f"<bullet>{x}\n"\<close>.\<close>

fun add_items :: "(json \<Rightarrow> ustring) \<Rightarrow> ustring \<Rightarrow> ustring \<Rightarrow> json list \<Rightarrow> ustring" where
  "add_items fmt bullet context [] = context"
| "add_items fmt bullet context (x # xs) =
     add_items fmt bullet (context @ bullet @ py_format fmt x @ [10]) xs"

text \<open>
  The block \<open>if patient_data.get(key): context += heading; for x in patient_data[key]: ...\<close>
  of the medical history, the medications and the allergies.
\<close>

definition add_list_section ::
  "(json \<Rightarrow> ustring) \<Rightarrow> ustring \<Rightarrow> ustring \<Rightarrow> ustring \<Rightarrow> pydict \<Rightarrow> ustring
     \<Rightarrow> py_error + ustring" where
  "add_list_section fmt key heading bullet patient_data context =
     (if truthy (dict_get patient_data key) then
        then_do (py_iter (dict_get patient_data key)) (\<lambda>xs.
          Inr (add_items fmt bullet (context @ heading) xs))
      else Inr context)"

text \<open>The block of the previous visits, over the slice \<open>[-n:]\<close>.\<close>

definition add_visits_section ::
  "(json \<Rightarrow> ustring) \<Rightarrow> nat \<Rightarrow> ustring \<Rightarrow> ustring \<Rightarrow> pydict \<Rightarrow> ustring
     \<Rightarrow> py_error + ustring" where
  "add_visits_section fmt n heading bullet patient_data context =
     (if truthy (dict_get patient_data (ascii ''previous_visits'')) then
        then_do (py_last_slice n (dict_get patient_data (ascii ''previous_visits''))) (\<lambda>recent.
        then_do (py_iter recent) (\<lambda>xs.
          Inr (add_items fmt bullet (context @ heading) xs)))
      else Inr context)"

text \<open>The loop \<open>for key, value in vitals.items(): context += f"   * {key}: {value}\n"\<close>.\<close>

fun add_vitals :: "(json \<Rightarrow> ustring) \<Rightarrow> ustring \<Rightarrow> pydict \<Rightarrow> ustring" where
  "add_vitals fmt context [] = context"
| "add_vitals fmt context (kv # kvs) =
     add_vitals fmt (context @ bullet_en @ fst kv @ ascii '': '' @ py_format fmt (snd kv) @ [10]) kvs"

definition add_vitals_section ::
  "(json \<Rightarrow> ustring) \<Rightarrow> pydict \<Rightarrow> ustring \<Rightarrow> py_error + ustring" where
  "add_vitals_section fmt patient_data context =
     (if truthy (dict_get patient_data (ascii ''vital_signs'')) then
        then_do (as_dict (dict_get patient_data (ascii ''vital_signs''))) (\<lambda>vitals.
          Inr (add_vitals fmt (context @ vitals_en) vitals))
      else Inr context)"

text \<open>
  \<open>format_patient_history\<close>. The Arabic branch (lines 101 to 130) has the sections
  personal info, medical history, medications, allergies and the last three visits; the
  English branch (lines 132 to 167) has the same with the last five visits, and the vital
  signs after them.
\<close>

definition format_patient_history ::
  "(json \<Rightarrow> ustring) \<Rightarrow> pydict \<Rightarrow> ustring \<Rightarrow> py_error + ustring" where
  "format_patient_history fmt patient_data language =
     (if patient_data = [] then Inr []
      else then_do
        (if language = ascii ''ar'' then
           then_do (add_personal_info fmt name_ar age_ar gender_ar patient_data
                      ([10, 10] @ rule50 @ [10] @ title_ar @ rule50 @ [10])) (\<lambda>c1.
           then_do (add_list_section fmt (ascii ''medical_history'') history_ar bullet_ar
                      patient_data c1) (\<lambda>c2.
           then_do (add_list_section fmt (ascii ''medications'') medications_ar bullet_ar
                      patient_data c2) (\<lambda>c3.
           then_do (add_list_section fmt (ascii ''allergies'') allergies_ar bullet_ar
                      patient_data c3) (\<lambda>c4.
           add_visits_section fmt 3 visits_ar bullet_ar patient_data c4))))
         else
           then_do (add_personal_info fmt name_en age_en gender_en patient_data
                      ([10, 10] @ rule50 @ [10] @ title_en @ rule50 @ [10])) (\<lambda>c1.
           then_do (add_list_section fmt (ascii ''medical_history'') history_en bullet_en
                      patient_data c1) (\<lambda>c2.
           then_do (add_list_section fmt (ascii ''medications'') medications_en bullet_en
                      patient_data c2) (\<lambda>c3.
           then_do (add_list_section fmt (ascii ''allergies'') allergies_en bullet_en
                      patient_data c3) (\<lambda>c4.
           then_do (add_visits_section fmt 5 visits_en bullet_en patient_data c4) (\<lambda>c5.
           add_vitals_section fmt patient_data c5))))))
        (\<lambda>context. Inr (context @ instructions)))"

section \<open>Biomarker context\<close>

definition lab_title_ar :: ustring where
  "lab_title_ar = [10, 10, 128202] @ ascii '' '' @ [1605, 1593, 1604, 1608, 1605, 1575, 1578]
     @ ascii '' '' @ [1578, 1602, 1585, 1610, 1585] @ ascii '' ''
     @ [1575, 1604, 1605, 1582, 1578, 1576, 1585] @ ascii '':'' @ [10]"

definition priorities_ar :: ustring where
  "priorities_ar = [127919] @ ascii '' '' @ [1575, 1604, 1571, 1608, 1604, 1608, 1610, 1575, 1578]
     @ ascii '' '' @ [1575, 1604, 1589, 1581, 1610, 1577] @ ascii '' ''
     @ [1575, 1604, 1585, 1574, 1610, 1587, 1610, 1577] @ ascii '':'' @ [10]"

definition lab_title_en :: ustring where
  "lab_title_en = [10, 10, 128202] @ ascii '' LAB REPORT INFORMATION:'' @ [10]"

definition priorities_en :: ustring where
  "priorities_en = [127919] @ ascii '' Top Health Priorities:'' @ [10]"

text \<open>The loop \<open>for i, priority in enumerate(xs, 1): context += f"{i}. {priority}\n"\<close>.\<close>

fun add_numbered :: "(json \<Rightarrow> ustring) \<Rightarrow> nat \<Rightarrow> ustring \<Rightarrow> json list \<Rightarrow> ustring" where
  "add_numbered fmt i context [] = context"
| "add_numbered fmt i context (x # xs) =
     add_numbered fmt (Suc i) (context @ dec i @ ascii ''. '' @ py_format fmt x @ [10]) xs"

text \<open>The body shared by the two branches of \<open>format_biomarker_context\<close>.\<close>

definition add_priorities ::
  "(json \<Rightarrow> ustring) \<Rightarrow> ustring \<Rightarrow> pydict \<Rightarrow> ustring \<Rightarrow> py_error + ustring" where
  "add_priorities fmt heading report context =
     (if truthy (dict_get report (ascii ''executive_summary'')) then
        then_do (as_dict (dict_get report (ascii ''executive_summary''))) (\<lambda>summary.
          if truthy (dict_get summary (ascii ''top_priorities'')) then
            then_do (py_iter (dict_get summary (ascii ''top_priorities''))) (\<lambda>xs.
              Inr (add_numbered fmt 1 (context @ heading) xs))
          else Inr context)
      else Inr context)"

definition format_biomarker_context ::
  "(json \<Rightarrow> ustring) \<Rightarrow> json \<Rightarrow> ustring \<Rightarrow> py_error + ustring" where
  "format_biomarker_context fmt report language =
     (if \<not> truthy report then Inr []
      else then_do (as_dict report) (\<lambda>r.
        if language = ascii ''ar'' then add_priorities fmt priorities_ar r lab_title_ar
        else add_priorities fmt priorities_en r lab_title_en))"

section \<open>Responses\<close>

text \<open>
  What a handler returns. \<open>JSONResponse body status\<close> is a JSON body with its status
  code (200 when the source gives none). \<open>ErrorResponse e status\<close> stands for
  \<open>JSONResponse({"error": str(e)}, status_code=status)\<close>, whose text is the message of
  the exception caught, and \<open>TTSErrorResponse e\<close> for the body of the \<open>/tts\<close> handler
  with the fields \<open>error\<close>, \<open>type\<close> and \<open>details\<close> and status 500.
  \<open>StreamingResponse audio headers\<close> carries the audio bytes and the response headers.
\<close>

datatype response =
    JSONResponse json nat
  | ErrorResponse py_error nat
  | TTSErrorResponse py_error
  | StreamingResponse "nat list" "(ustring \<times> ustring) list"

section \<open>The chat handler\<close>

text \<open>
  The request models. The field names of the source are prefixed, since \<open>text\<close>,
  \<open>language\<close> and \<open>message\<close> are also names of variables: \<open>cm_role\<close> and \<open>cm_text\<close>
  are \<open>ChatMessage.role\<close> and \<open>ChatMessage.text\<close>, and \<open>cr_x\<close> is \<open>ChatRequest.x\<close>.
  An optional field is an \<open>option\<close>.
\<close>

record ChatMessage =
  cm_role :: ustring
  cm_text :: ustring

record ChatRequest =
  cr_message :: ustring
  cr_language :: "ustring option"
  cr_chat_history :: "ChatMessage list option"
  cr_patient_data :: "pydict option"
  cr_biomarker_data :: "pydict option"
  cr_biomarker_analysis :: "pydict option"

text \<open>
  What the handler is given from outside: the statistical detector, the text of values
  that \<open>py_format\<close> leaves open, the two prompt templates \<open>DOCTOR_SYSTEM_PROMPT_EN\<close> and
  \<open>DOCTOR_SYSTEM_PROMPT_AR\<close> (fixed texts of some eighty lines each, on whose content
  nothing below depends), \<open>call_biomarker_api\<close> (the report of the biomarker module, or
  \<open>None\<close> when it raised) and the model's \<open>generate_content\<close> with \<open>response.text\<close>.
\<close>

record 'c chat_env =
  ce_detect :: detector
  ce_fmt :: "json \<Rightarrow> ustring"
  ce_prompt_en :: ustring
  ce_prompt_ar :: ustring
  ce_biomarker_api :: "pydict \<Rightarrow> json"
  ce_generate :: "'c \<Rightarrow> py_error + ustring"

text \<open>An optional \<open>dict\<close> as an object: \<open>None\<close> or the \<open>dict\<close>.\<close>

definition opt_dict :: "pydict option \<Rightarrow> json" where
  "opt_dict d = (case d of None \<Rightarrow> JNull | Some kvs \<Rightarrow> JObj kvs)"

text \<open>
  Lines 399 to 402 of \<open>chat\<close>, and the same lines 662 to 665 of \<open>text_to_speech\<close>:
  \<open>"auto"\<close> asks the detector, \<open>"en"\<close> and \<open>"ar"\<close> are taken as they are, anything
  else (also \<open>None\<close>) is \<open>"en"\<close>.
\<close>

definition resolve_language :: "detector \<Rightarrow> ustring option \<Rightarrow> ustring \<Rightarrow> ustring" where
  "resolve_language detect language txt =
     (if language = Some (ascii ''auto'') then detect_language detect txt
      else (case language of
              None \<Rightarrow> ascii ''en''
            | Some l \<Rightarrow> if l \<in> set [ascii ''en'', ascii ''ar''] then l else ascii ''en''))"

definition base_prompt :: "'c chat_env \<Rightarrow> ustring \<Rightarrow> ustring" where
  "base_prompt env detected_lang =
     (if detected_lang = ascii ''ar'' then ce_prompt_ar env else ce_prompt_en env)"

text \<open>Lines 415 to 418: the report given by the caller, else the one computed from the raw data.\<close>

definition resolve_biomarker_report :: "'c chat_env \<Rightarrow> ChatRequest \<Rightarrow> json" where
  "resolve_biomarker_report env request =
     (let biomarker_report = opt_dict (cr_biomarker_analysis request) in
      if \<not> truthy biomarker_report \<and> truthy (opt_dict (cr_biomarker_data request)) then
        (case cr_biomarker_data request of
           None \<Rightarrow> biomarker_report
         | Some d \<Rightarrow> ce_biomarker_api env d)
      else biomarker_report)"

text \<open>
  Lines 407 to 423: the system prompt, built by \<open>+=\<close> on a string. The result is the
  prompt and the biomarker report in use.
\<close>

definition compose_system_prompt ::
  "'c chat_env \<Rightarrow> ChatRequest \<Rightarrow> ustring \<Rightarrow> py_error + (ustring \<times> json)" where
  "compose_system_prompt env request detected_lang =
     (let system_prompt = base_prompt env detected_lang in
      then_do
        (case cr_patient_data request of
           None \<Rightarrow> Inr system_prompt
         | Some pd \<Rightarrow>
             if truthy (JObj pd) then
               then_do (format_patient_history (ce_fmt env) pd detected_lang) (\<lambda>patient_context.
                 Inr (system_prompt @ patient_context))
             else Inr system_prompt)
        (\<lambda>system_prompt.
           let biomarker_report = resolve_biomarker_report env request in
           if truthy biomarker_report then
             then_do (format_biomarker_context (ce_fmt env) biomarker_report detected_lang)
               (\<lambda>biomarker_context. Inr (system_prompt @ biomarker_context, biomarker_report))
           else Inr (system_prompt, biomarker_report)))"

text \<open>
  An entry \<open>{"role": r, "parts": [{"text": t}, ...]}\<close> of the list given to the model.
\<close>

record content =
  c_role :: ustring
  c_parts :: "ustring list"

text \<open>The loop of lines 430 to 432, appending to \<open>contents\<close>.\<close>

fun append_history :: "content list \<Rightarrow> ChatMessage list \<Rightarrow> content list" where
  "append_history contents [] = contents"
| "append_history contents (msg # msgs) =
     append_history
       (contents @ [\<lparr>c_role = (if cm_role msg = ascii ''user'' then ascii ''user'' else ascii ''model''),
                     c_parts = [cm_text msg]\<rparr>])
       msgs"

text \<open>Lines 426 to 435.\<close>

definition build_contents :: "ustring \<Rightarrow> ChatMessage list option \<Rightarrow> ustring \<Rightarrow> content list" where
  "build_contents system_prompt chat_history message =
     (let contents = [\<lparr>c_role = ascii ''user'', c_parts = [system_prompt]\<rparr>];
          contents = (case chat_history of
                        None \<Rightarrow> contents
                      | Some h \<Rightarrow> if h \<noteq> [] then append_history contents h else contents)
      in contents @ [\<lparr>c_role = ascii ''user'', c_parts = [py_strip message]\<rparr>])"

text \<open>
  The argument of \<open>model.generate_content\<close> for a request, or the exception that ends
  the \<open>try\<close> block before the call.
\<close>

definition chat_contents :: "content list chat_env \<Rightarrow> ChatRequest \<Rightarrow> py_error + content list" where
  "chat_contents env request =
     (let detected_lang = resolve_language (ce_detect env) (cr_language request) (cr_message request) in
      then_do (compose_system_prompt env request detected_lang) (\<lambda>(system_prompt, biomarker_report).
        Inr (build_contents system_prompt (cr_chat_history request) (cr_message request))))"

text \<open>The \<open>try\<close> block of \<open>chat\<close> and its \<open>except Exception\<close> handler.\<close>

definition chat_try :: "content list chat_env \<Rightarrow> ChatRequest \<Rightarrow> py_error + response" where
  "chat_try env request =
     (let detected_lang = resolve_language (ce_detect env) (cr_language request) (cr_message request) in
      then_do (compose_system_prompt env request detected_lang) (\<lambda>(system_prompt, biomarker_report).
      let contents = build_contents system_prompt (cr_chat_history request) (cr_message request) in
      then_do (ce_generate env contents) (\<lambda>txt.
      let reply_text = py_strip txt;
          response_lang = detect_language (ce_detect env) reply_text
      in Inr (JSONResponse
           (JObj [(ascii ''reply'', JStr reply_text),
                  (ascii ''detected_language'', JStr detected_lang),
                  (ascii ''response_language'', JStr response_lang),
                  (ascii ''has_patient_data'', JBool (cr_patient_data request \<noteq> None)),
                  (ascii ''has_biomarker_report'', JBool (biomarker_report \<noteq> JNull))])
           200))))"

definition chat :: "content list chat_env \<Rightarrow> ChatRequest \<Rightarrow> response" where
  "chat env request =
     (case chat_try env request of
        Inl e \<Rightarrow> ErrorResponse e 500
      | Inr r \<Rightarrow> r)"

section \<open>Text to speech\<close>

record TTSRequest =
  tr_text :: ustring
  tr_language_code :: "ustring option"
  tr_voice :: "ustring option"

definition EDGE_TTS_VOICES :: "(ustring \<times> ustring) list" where
  "EDGE_TTS_VOICES =
     [(ascii ''en'', ascii ''en-US-AriaNeural''), (ascii ''ar'', ascii ''ar-SA-ZariyahNeural'')]"

text \<open>The test of line 668, on the single range U+0600-U+06FF.\<close>

definition basic_arabic_search :: "ustring \<Rightarrow> bool" where
  "basic_arabic_search txt = list_ex (\<lambda>c. 0x0600 \<le> c \<and> c \<le> 0x06FF) txt"

text \<open>Lines 662 to 669: the language the handler synthesises in and reports.\<close>

definition tts_language :: "detector \<Rightarrow> TTSRequest \<Rightarrow> ustring" where
  "tts_language detect req =
     (let detected_lang = resolve_language detect (tr_language_code req) (tr_text req) in
      if basic_arabic_search (tr_text req) then ascii ''ar'' else detected_lang)"

text \<open>
  Line 672: the caller's voice when it is given and not empty, else the default of the
  language, else the English default.
\<close>

definition tts_voice :: "TTSRequest \<Rightarrow> ustring \<Rightarrow> ustring" where
  "tts_voice req detected_lang =
     (case tr_voice req of
        Some v \<Rightarrow> if v \<noteq> [] then v else
                   (case map_of EDGE_TTS_VOICES detected_lang of
                      Some d \<Rightarrow> d | None \<Rightarrow> ascii ''en-US-AriaNeural'')
      | None \<Rightarrow> (case map_of EDGE_TTS_VOICES detected_lang of
                   Some d \<Rightarrow> d | None \<Rightarrow> ascii ''en-US-AriaNeural''))"

text \<open>
  The synthesis engine is a collaborator: for a text and a voice it streams chunks, each
  with a type and data, or raises. The loop of lines 684 to 686 keeps the data of the
  chunks of type \<open>audio\<close>.
\<close>

type_synonym chunk = "ustring \<times> nat list"

fun collect_audio :: "nat list \<Rightarrow> chunk list \<Rightarrow> nat list" where
  "collect_audio audio_buffer [] = audio_buffer"
| "collect_audio audio_buffer (ch # chs) =
     collect_audio (if fst ch = ascii ''audio'' then audio_buffer @ snd ch else audio_buffer) chs"

text \<open>
  \<open>StreamingResponse\<close> encodes the header values as Latin-1 when it is built, which
  raises \<open>UnicodeEncodeError\<close> on a character above U+00FF.
\<close>

definition latin1 :: "ustring \<Rightarrow> bool" where
  "latin1 s = list_all (\<lambda>c. c < 256) s"

definition text_to_speech_try ::
  "detector \<Rightarrow> (ustring \<Rightarrow> ustring \<Rightarrow> py_error + chunk list) \<Rightarrow> TTSRequest
     \<Rightarrow> py_error + response" where
  "text_to_speech_try detect communicate req =
     (let detected_lang = tts_language detect req;
          voice = tts_voice req detected_lang
      in then_do (communicate (py_strip (tr_text req)) voice) (\<lambda>chunks.
         let audio_buffer = collect_audio [] chunks in
         if length audio_buffer = 0 then Inl OtherError
         else if \<not> (latin1 detected_lang \<and> latin1 voice) then Inl UnicodeEncodeError
         else Inr (StreamingResponse audio_buffer
                [(ascii ''Content-Disposition'', ascii ''inline; filename=speech.mp3''),
                 (ascii ''X-Language'', detected_lang),
                 (ascii ''X-Voice'', voice),
                 (ascii ''Cache-Control'', ascii ''no-cache'')])))"

definition text_to_speech ::
  "detector \<Rightarrow> (ustring \<Rightarrow> ustring \<Rightarrow> py_error + chunk list) \<Rightarrow> TTSRequest \<Rightarrow> response" where
  "text_to_speech detect communicate req =
     (case text_to_speech_try detect communicate req of
        Inl e \<Rightarrow> TTSErrorResponse e
      | Inr r \<Rightarrow> r)"

section \<open>Chat history store\<close>

text \<open>
  The store is the directory \<open>PATIENT_DATA_FOLDER\<close>. A file holds a JSON document or
  something that \<open>json.load\<close> rejects; \<open>json.dump\<close> followed by \<open>json.load\<close> gives
  the document back. The state of the directory is a map from paths to file contents.
\<close>

datatype file_content = JsonDoc json | NotJson

text \<open>
  Writing a file can fail when it is opened (the file is left as it was) or while the
  document is written (what is left is not a document).
\<close>

datatype write_outcome = WriteOk | OpenFails | DumpFails

text \<open>
  What the handlers are given from outside: \<open>he_path s\<close> is the path
  \<open>Path(PATIENT_DATA_FOLDER) / s\<close> and \<open>he_path_str\<close> its \<open>str\<close>; \<open>he_folder_dump\<close> is
  \<open>json.dumps(str(Path(PATIENT_DATA_FOLDER)))\<close>; \<open>he_now\<close> is
  \<open>datetime.now().isoformat()\<close>; \<open>he_write\<close> and \<open>he_read_fails\<close> say how opening and
  writing, and opening for reading, end for a path; \<open>he_exists_fails p\<close> says that
  \<open>exists()\<close> raises for a path \<open>p\<close> at which there is no file.
\<close>

record 'p hist_env =
  he_path :: "ustring \<Rightarrow> 'p"
  he_path_str :: "'p \<Rightarrow> ustring"
  he_folder_dump :: ustring
  he_now :: ustring
  he_write :: "'p \<Rightarrow> write_outcome"
  he_read_fails :: "'p \<Rightarrow> bool"
  he_exists_fails :: "'p \<Rightarrow> bool"

record SaveChatRequest =
  sr_patient_name :: ustring
  sr_chat_history :: "ChatMessage list"

text \<open>\<open>d[k] = v\<close>: an existing key keeps its place, a new key goes to the end.\<close>

fun dict_set :: "pydict \<Rightarrow> ustring \<Rightarrow> json \<Rightarrow> pydict" where
  "dict_set [] k v = [(k, v)]"
| "dict_set (kv # kvs) k v = (if fst kv = k then (k, v) # kvs else kv # dict_set kvs k v)"

text \<open>\<open>len(x)\<close>: defined on lists, strings and \<open>dict\<close>s.\<close>

fun py_len :: "json \<Rightarrow> py_error + nat" where
  "py_len (JList xs) = Inr (length xs)"
| "py_len (JStr s) = Inr (length s)"
| "py_len (JObj d) = Inr (length d)"
| "py_len v = Inl TypeError"

definition chat_file_of :: "'p hist_env \<Rightarrow> ustring \<Rightarrow> 'p" where
  "chat_file_of env patient_name = he_path env (patient_name @ ascii ''_chat.json'')"

text \<open>The list comprehension of line 521.\<close>

definition history_json :: "ChatMessage list \<Rightarrow> json" where
  "history_json chat_history =
     JList (map (\<lambda>msg. JObj [(ascii ''role'', JStr (cm_role msg)), (ascii ''text'', JStr (cm_text msg))])
              chat_history)"

text \<open>Lines 519 to 528: the document, with the placeholder of \<open>last_updated\<close> replaced.\<close>

definition save_data :: "'p hist_env \<Rightarrow> SaveChatRequest \<Rightarrow> pydict" where
  "save_data env request =
     (let data = [(ascii ''patient_name'', JStr (sr_patient_name request)),
                  (ascii ''chat_history'', history_json (sr_chat_history request)),
                  (ascii ''message_count'', JInt (int (length (sr_chat_history request)))),
                  (ascii ''last_updated'', JStr (he_folder_dump env))]
      in dict_set data (ascii ''last_updated'') (JStr (he_now env)))"

text \<open>\<open>save_chat_history\<close>: the response and the store afterwards.\<close>

definition save_chat_history ::
  "'p hist_env \<Rightarrow> SaveChatRequest \<Rightarrow> ('p \<rightharpoonup> file_content) \<Rightarrow> response \<times> ('p \<rightharpoonup> file_content)" where
  "save_chat_history env request files =
     (let chat_file = chat_file_of env (sr_patient_name request);
          data = save_data env request
      in case he_write env chat_file of
           OpenFails \<Rightarrow> (ErrorResponse OtherError 500, files)
         | DumpFails \<Rightarrow> (ErrorResponse OtherError 500, files(chat_file \<mapsto> NotJson))
         | WriteOk \<Rightarrow>
             (JSONResponse
                (JObj [(ascii ''success'', JBool True),
                       (ascii ''patient_name'', JStr (sr_patient_name request)),
                       (ascii ''message_count'', JInt (int (length (sr_chat_history request)))),
                       (ascii ''file'', JStr (he_path_str env chat_file))])
                200,
              files(chat_file \<mapsto> JsonDoc (JObj data))))"

text \<open>
  \<open>chat_file.exists()\<close> asks for the status of the file. For a file that is there the
  answer is \<open>True\<close> (where its status cannot be read it cannot be opened either, which
  is \<open>he_read_fails\<close>). For a file that is not there the status call fails: on the
  errors that mean that there is no such file (\<open>ENOENT\<close>, \<open>ENOTDIR\<close>, \<open>EBADF\<close>,
  \<open>ELOOP\<close>) the answer is \<open>False\<close>, and every other \<open>OSError\<close> is raised, for
  instance \<open>ENAMETOOLONG\<close> for a file name of more than 255 bytes.
\<close>

definition chat_file_exists ::
  "'p hist_env \<Rightarrow> ('p \<rightharpoonup> file_content) \<Rightarrow> 'p \<Rightarrow> py_error + bool" where
  "chat_file_exists env files p =
     (case files p of
        Some c \<Rightarrow> Inr True
      | None \<Rightarrow> if he_exists_fails env p then Inl OSError else Inr False)"

text \<open>
  \<open>get_chat_history\<close>. Line 506 evaluates \<open>len(data.get('chat_history', []))\<close> for its
  log line before the document is returned, which raises on a document that is not a
  \<open>dict\<close> or whose \<open>chat_history\<close> has no length. \<open>JSONResponse(data)\<close> raises on a
  document with a non-finite float. All of it is inside the \<open>try\<close> block.
\<close>

definition get_chat_history_try ::
  "'p hist_env \<Rightarrow> ustring \<Rightarrow> ('p \<rightharpoonup> file_content) \<Rightarrow> py_error + response" where
  "get_chat_history_try env patient_name files =
     (let chat_file = chat_file_of env patient_name in
      then_do (chat_file_exists env files chat_file) (\<lambda>exists.
        if \<not> exists then
          Inr (JSONResponse
                 (JObj [(ascii ''patient_name'', JStr patient_name),
                        (ascii ''chat_history'', JList []),
                        (ascii ''message_count'', JInt 0)])
                 200)
        else if he_read_fails env chat_file then Inl OSError
        else (case files chat_file of
                None \<Rightarrow> Inl OSError
              | Some NotJson \<Rightarrow> Inl ValueError
              | Some (JsonDoc data) \<Rightarrow>
                  then_do (as_dict data) (\<lambda>d.
                  then_do (py_len (dict_get_default d (ascii ''chat_history'') (JList []))) (\<lambda>n.
                    if json_finite data then Inr (JSONResponse data 200)
                    else Inl ValueError)))))"

definition get_chat_history :: "'p hist_env \<Rightarrow> ustring \<Rightarrow> ('p \<rightharpoonup> file_content) \<Rightarrow> response" where
  "get_chat_history env patient_name files =
     (case get_chat_history_try env patient_name files of
        Inl e \<Rightarrow> ErrorResponse e 500
      | Inr r \<Rightarrow> r)"

section \<open>Speech to text\<close>

text \<open>
  The collaborators of \<open>speech_to_text\<close>, each given by how it ends.

  Storing the upload (lines 601 to 604): \<open>NamedTemporaryFile(delete=False)\<close> creates the
  file, then the upload is read and written, then \<open>tmp_input_path\<close> is assigned, then the
  \<open>with\<close> block closes the file. Each of the first, second and last step can raise.
\<close>

datatype upload_outcome = UploadStored | UploadCreateFails | UploadWriteFails | UploadCloseFails

text \<open>
  \<open>subprocess.run\<close> of ffmpeg: it returns with an exit code, runs into the timeout, or
  raises something else. The flag says whether the output file exists afterwards.
\<close>

datatype ffmpeg_outcome = FfmpegExit int bool | FfmpegTimeout bool | FfmpegRaises bool

text \<open>
  \<open>wave.open\<close>: it raises, or gives a reader with its number of channels, its sample
  width, its frame rate and its frames (each the bytes of one frame).
\<close>

datatype wave_outcome = WaveOpenFails | WaveOpened nat nat nat "nat list list"

datatype vosk_model = vosk_model_en | vosk_model_ar

text \<open>
  The recogniser, with a state of type \<open>'r\<close>: \<open>KaldiRecognizer(model, rate)\<close>,
  \<open>AcceptWaveform(data)\<close> and \<open>json.loads(recognizer.FinalResult())\<close>.
\<close>

record 'r recognizer_api =
  kaldi_new :: "vosk_model \<Rightarrow> nat \<Rightarrow> py_error + 'r"
  accept_waveform :: "'r \<Rightarrow> nat list \<Rightarrow> 'r"
  final_result :: "'r \<Rightarrow> py_error + json"

text \<open>
  \<open>se_input_path\<close> and \<open>se_wav_path\<close> are the names that \<open>NamedTemporaryFile\<close> and
  \<open>mktemp\<close> choose; \<open>se_remove_fails p\<close> says that \<open>os.remove(p)\<close> raises and leaves the
  file. The state of the file system is the set of paths that exist.
\<close>

record 'r stt_env =
  STT_AVAILABLE :: bool
  se_input_path :: ustring
  se_wav_path :: ustring
  se_upload :: upload_outcome
  se_ffmpeg :: ffmpeg_outcome
  se_wave :: wave_outcome
  se_recognizer :: "'r recognizer_api"
  se_remove_fails :: "ustring \<Rightarrow> bool"

text \<open>Lines 601 to 604: the exception if any, \<open>tmp_input_path\<close>, and the files.\<close>

definition store_upload ::
  "'r stt_env \<Rightarrow> ustring set \<Rightarrow> (py_error + unit) \<times> ustring option \<times> ustring set" where
  "store_upload env fs =
     (case se_upload env of
        UploadCreateFails \<Rightarrow> (Inl OtherError, None, fs)
      | UploadWriteFails \<Rightarrow> (Inl OtherError, None, insert (se_input_path env) fs)
      | UploadCloseFails \<Rightarrow> (Inl OtherError, Some (se_input_path env), insert (se_input_path env) fs)
      | UploadStored \<Rightarrow> (Inr (), Some (se_input_path env), insert (se_input_path env) fs))"

text \<open>Lines 621 and 622.\<close>

definition stt_detected_language :: "ustring \<Rightarrow> ustring" where
  "stt_detected_language language = (if language \<noteq> ascii ''auto'' then language else ascii ''en'')"

definition stt_model :: "ustring \<Rightarrow> vosk_model" where
  "stt_model detected_language =
     (if detected_language = ascii ''ar'' then vosk_model_ar else vosk_model_en)"

text \<open>
  The loop of lines 625 to 629: \<open>readframes(4000)\<close> gives the bytes of the next 4000
  frames (fewer at the end), and the loop ends on the first empty read.
\<close>

function feed_frames :: "('r \<Rightarrow> nat list \<Rightarrow> 'r) \<Rightarrow> 'r \<Rightarrow> nat list list \<Rightarrow> 'r" where
  "feed_frames accept recognizer frames =
     (let data = concat (take 4000 frames) in
      if length data = 0 then recognizer
      else feed_frames accept (accept recognizer data) (drop 4000 frames))"
  by pat_completeness auto
termination
proof (relation "measure (\<lambda>(accept, recognizer, frames). length frames)", goal_cases)
  case 1
  show ?case by simp
next
  case (2 accept recognizer frames data)
  then have "frames \<noteq> []" by auto
  then show ?case by simp
qed

declare feed_frames.simps [simp del]

text \<open>\<open>x.strip()\<close> on an object: only a string has it.\<close>

fun strip_of :: "json \<Rightarrow> py_error + ustring" where
  "strip_of (JStr s) = Inr (py_strip s)"
| "strip_of v = Inl AttributeError"

text \<open>Lines 616 to 640, from \<open>wave.open\<close> on a file that exists to the response.\<close>

definition recognize :: "'r stt_env \<Rightarrow> ustring \<Rightarrow> py_error + response" where
  "recognize env language =
     (case se_wave env of
        WaveOpenFails \<Rightarrow> Inl OtherError
      | WaveOpened nchannels sampwidth framerate frames \<Rightarrow>
          if nchannels \<noteq> 1 \<or> sampwidth \<noteq> 2 then
            Inr (JSONResponse (JObj [(ascii ''error'', JStr (ascii ''Invalid WAV format''))]) 400)
          else
            (let detected_language = stt_detected_language language;
                 model = stt_model detected_language
             in then_do (kaldi_new (se_recognizer env) model framerate) (\<lambda>recognizer.
                let recognizer = feed_frames (accept_waveform (se_recognizer env)) recognizer frames in
                then_do (final_result (se_recognizer env) recognizer) (\<lambda>final.
                then_do (as_dict final) (\<lambda>d.
                then_do (strip_of (dict_get_default d (ascii ''text'') (JStr []))) (\<lambda>transcript.
                  Inr (JSONResponse
                         (JObj [(ascii ''transcript'', JStr transcript),
                                (ascii ''detected_language'', JStr detected_language),
                                (ascii ''status'',
                                   JStr (if transcript \<noteq> [] then ascii ''success''
                                         else ascii ''no_speech''))])
                         200)))))))"

text \<open>
  The \<open>try\<close> block: what it returns or raises, the two path variables as they stand when
  it is left, and the files.
\<close>

definition speech_to_text_try ::
  "'r stt_env \<Rightarrow> ustring \<Rightarrow> ustring set
     \<Rightarrow> (py_error + response) \<times> ustring option \<times> ustring option \<times> ustring set" where
  "speech_to_text_try env language fs =
     (case store_upload env fs of
        (Inl e, tmp_input_path, fs1) \<Rightarrow> (Inl e, tmp_input_path, None, fs1)
      | (Inr u, tmp_input_path, fs1) \<Rightarrow>
          (let tmp_wav_path = Some (se_wav_path env) in
           case se_ffmpeg env of
             FfmpegTimeout w \<Rightarrow>
               (Inl TimeoutExpired, tmp_input_path, tmp_wav_path,
                if w then insert (se_wav_path env) fs1 else fs1)
           | FfmpegRaises w \<Rightarrow>
               (Inl OtherError, tmp_input_path, tmp_wav_path,
                if w then insert (se_wav_path env) fs1 else fs1)
           | FfmpegExit returncode w \<Rightarrow>
               (let fs2 = (if w then insert (se_wav_path env) fs1 else fs1) in
                if returncode \<noteq> 0 then
                  (Inr (JSONResponse (JObj [(ascii ''error'', JStr (ascii ''Audio conversion failed''))]) 500),
                   tmp_input_path, tmp_wav_path, fs2)
                else if se_wav_path env \<notin> fs2 then
                  (Inl OtherError, tmp_input_path, tmp_wav_path, fs2)
                else (recognize env language, tmp_input_path, tmp_wav_path, fs2))))"

text \<open>The \<open>finally\<close> block, lines 647 to 652.\<close>

fun remove_temp_files :: "(ustring \<Rightarrow> bool) \<Rightarrow> ustring option list \<Rightarrow> ustring set \<Rightarrow> ustring set" where
  "remove_temp_files remove_fails [] fs = fs"
| "remove_temp_files remove_fails (path # paths) fs =
     remove_temp_files remove_fails paths
       (case path of
          None \<Rightarrow> fs
        | Some p \<Rightarrow> if p \<noteq> [] \<and> p \<in> fs then (if remove_fails p then fs else fs - {p}) else fs)"

text \<open>\<open>speech_to_text\<close>: the response and the files when the handler has returned.\<close>

definition speech_to_text :: "'r stt_env \<Rightarrow> ustring \<Rightarrow> ustring set \<Rightarrow> response \<times> ustring set" where
  "speech_to_text env language fs =
     (if \<not> STT_AVAILABLE env then
        (JSONResponse
           (JObj [(ascii ''error'', JStr (ascii ''Speech-to-text not available. Vosk models not found.''))])
           503, fs)
      else
        (case speech_to_text_try env language fs of
           (result, tmp_input_path, tmp_wav_path, fs1) \<Rightarrow>
             ((case result of
                 Inr r \<Rightarrow> r
               | Inl e \<Rightarrow>
                   (case e of
                      TimeoutExpired \<Rightarrow>
                        JSONResponse (JObj [(ascii ''error'', JStr (ascii ''Audio processing timeout''))]) 500
                    | _ \<Rightarrow> ErrorResponse e 500)),
              remove_temp_files (se_remove_fails env) [tmp_input_path, tmp_wav_path] fs1)))"

section \<open>Example inputs\<close>

text \<open>Concrete collaborators and requests, on which the theorems below are instantiated.\<close>

definition ex_chat_env :: "content list chat_env" where
  "ex_chat_env =
     \<lparr>ce_detect = (\<lambda>t. Inl OtherError),
      ce_fmt = (\<lambda>v. ascii ''?''),
      ce_prompt_en = ascii ''You are Dr. HealBot.'',
      ce_prompt_ar = [1571, 1606, 1578],
      ce_biomarker_api = (\<lambda>d. JNull),
      ce_generate = (\<lambda>c. Inr (ascii ''ok''))\<rparr>"

definition ex_chat_request :: ChatRequest where
  "ex_chat_request =
     \<lparr>cr_message = ascii '' and today?  '',
      cr_language = Some (ascii ''en''),
      cr_chat_history = Some [\<lparr>cm_role = ascii ''user'', cm_text = ascii ''I have a fever''\<rparr>,
                              \<lparr>cm_role = ascii ''model'', cm_text = ascii ''Since when?''\<rparr>,
                              \<lparr>cm_role = ascii ''bot'', cm_text = ascii ''Since when?''\<rparr>],
      cr_patient_data = None,
      cr_biomarker_data = None,
      cr_biomarker_analysis = None\<rparr>"

definition ex_context_request :: ChatRequest where
  "ex_context_request =
     \<lparr>cr_message = ascii ''hello'',
      cr_language = Some (ascii ''en''),
      cr_chat_history = None,
      cr_patient_data = Some [(ascii ''allergies'', JList [JStr (ascii ''penicillin'')])],
      cr_biomarker_data = None,
      cr_biomarker_analysis =
        Some [(ascii ''executive_summary'',
               JObj [(ascii ''top_priorities'', JList [JStr (ascii ''iron'')])])]\<rparr>"

definition ex_hist_env :: "ustring hist_env" where
  "ex_hist_env =
     \<lparr>he_path = (\<lambda>s. ascii ''patient_histories/'' @ s),
      he_path_str = (\<lambda>p. p),
      he_folder_dump = [34] @ ascii ''patient_histories'' @ [34],
      he_now = ascii ''2025-01-01T12:00:00.000000'',
      he_write = (\<lambda>p. WriteOk),
      he_read_fails = (\<lambda>p. False),
      he_exists_fails = (\<lambda>p. 255 < length p - length (ascii ''patient_histories/''))\<rparr>"

definition ex_save_request :: SaveChatRequest where
  "ex_save_request =
     \<lparr>sr_patient_name = ascii ''alice'',
      sr_chat_history = [\<lparr>cm_role = ascii ''user'', cm_text = ascii ''hi''\<rparr>,
                         \<lparr>cm_role = ascii ''model'', cm_text = ascii ''hello''\<rparr>]\<rparr>"

text \<open>
  A recogniser whose state is the model it was built with: the English model hears
  \<open>hello\<close> (with blanks around it), the Arabic one hears nothing but blanks.
\<close>

definition ex_recognizer :: "vosk_model recognizer_api" where
  "ex_recognizer =
     \<lparr>kaldi_new = (\<lambda>model rate. Inr model),
      accept_waveform = (\<lambda>r data. r),
      final_result = (\<lambda>r. Inr (JObj [(ascii ''text'',
                          JStr (if r = vosk_model_en then ascii '' hello '' else ascii ''  ''))]))\<rparr>"

definition ex_stt_env :: "vosk_model stt_env" where
  "ex_stt_env =
     \<lparr>STT_AVAILABLE = True,
      se_input_path = ascii ''/tmp/in.webm'',
      se_wav_path = ascii ''/tmp/out.wav'',
      se_upload = UploadStored,
      se_ffmpeg = FfmpegExit 0 True,
      se_wave = WaveOpened 1 2 16000 [[0, 0], [1, 0]],
      se_recognizer = ex_recognizer,
      se_remove_fails = (\<lambda>p. False)\<rparr>"

section \<open>Basic facts\<close>

lemma ascii_eq_iff [simp]: "ascii a = ascii b \<longleftrightarrow> a = b"
  by (simp add: ascii_def inj_map_eq_map inj_on_def)

lemma ascii_Nil_iff [simp]: "ascii a = [] \<longleftrightarrow> a = []"
  by (simp add: ascii_def)

lemma latin1_ascii [simp]: "latin1 (ascii s)"
proof -
  have "\<And>c. (of_char c :: nat) < 256"
  proof -
    fix c
    have "(of_char c :: nat) mod 256 < 256" by simp
    then show "(of_char c :: nat) < 256" by (simp only: of_char_mod_256)
  qed
  then show ?thesis by (simp add: latin1_def ascii_def list_all_iff)
qed

lemma py_strip_hello: "py_strip (ascii '' hello '') = ascii ''hello''"
  by (simp add: py_strip_def py_isspace_def ascii_def)

lemma py_strip_blanks: "py_strip (ascii ''  '') = []"
  by (simp add: py_strip_def py_isspace_def ascii_def)

lemma py_strip_example: "py_strip (ascii '' and today?  '') = ascii ''and today?''"
  by (simp add: py_strip_def py_isspace_def ascii_def)

section \<open>Properties of language detection\<close>

lemma arabic_pattern_search_iff:
  "arabic_pattern_search text \<longleftrightarrow> (\<exists>c \<in> set text. arabic_char c)"
  by (simp add: arabic_pattern_search_def list_ex_iff)

text \<open>
  Claim C1. For every text and every behaviour of the statistical detector,
  \<open>detect_language\<close> returns one of the two tags \<open>en\<close> and \<open>ar\<close> (it has no error
  result); a text with a code point in U+0600-U+06FF, U+0750-U+077F or U+08A0-U+08FF
  gives \<open>ar\<close> whatever the detector would say; and when the statistical path is taken
  and raises, the result is \<open>en\<close>.
\<close>

theorem detect_language_total_and_script_first:
  "detect_language detect text \<in> {ascii ''en'', ascii ''ar''}
   \<and> ((\<exists>c \<in> set text. (0x0600 \<le> c \<and> c \<le> 0x06FF) \<or> (0x0750 \<le> c \<and> c \<le> 0x077F)
                         \<or> (0x08A0 \<le> c \<and> c \<le> 0x08FF))
        \<longrightarrow> detect_language detect text = ascii ''ar'')
   \<and> (\<not> arabic_pattern_search text \<and> detect text = Inl e
        \<longrightarrow> detect_language detect text = ascii ''en'')"
proof (intro conjI impI)
  show "detect_language detect text \<in> {ascii ''en'', ascii ''ar''}"
    by (simp add: detect_language_def detect_language_try_def split: sum.splits)
next
  assume "\<exists>c \<in> set text. (0x0600 \<le> c \<and> c \<le> 0x06FF) \<or> (0x0750 \<le> c \<and> c \<le> 0x077F)
                         \<or> (0x08A0 \<le> c \<and> c \<le> 0x08FF)"
  then have "arabic_pattern_search text"
    by (simp add: arabic_pattern_search_iff arabic_char_def)
  then show "detect_language detect text = ascii ''ar''"
    by (simp add: detect_language_def detect_language_try_def)
next
  assume "\<not> arabic_pattern_search text \<and> detect text = Inl e"
  then show "detect_language detect text = ascii ''en''"
    by (simp add: detect_language_def detect_language_try_def)
qed

theorem detect_language_total_and_script_first_witness:
  "detect_language (\<lambda>t. Inr (ascii ''en'')) [0x0639, 0x0646] = ascii ''ar''
   \<and> detect_language (\<lambda>t. Inl OtherError) (ascii ''hi'') = ascii ''en''
   \<and> detect_language (\<lambda>t. Inr (ascii ''fr'')) (ascii ''bonjour'') \<in> {ascii ''en'', ascii ''ar''}"
proof -
  have a: "\<exists>c \<in> set [0x0639, 0x0646::nat]. (0x0600 \<le> c \<and> c \<le> 0x06FF)
             \<or> (0x0750 \<le> c \<and> c \<le> 0x077F) \<or> (0x08A0 \<le> c \<and> c \<le> 0x08FF)"
    by simp
  have b: "\<not> arabic_pattern_search (ascii ''hi'')"
    by (simp add: arabic_pattern_search_def arabic_char_def ascii_def)
  from detect_language_total_and_script_first
         [of "\<lambda>t. Inr (ascii ''en'')" "[0x0639, 0x0646]" OtherError] a
  have 1: "detect_language (\<lambda>t. Inr (ascii ''en'')) [0x0639, 0x0646] = ascii ''ar''"
    by blast
  from detect_language_total_and_script_first
         [of "\<lambda>t. Inl OtherError" "ascii ''hi''" OtherError] b
  have 2: "detect_language (\<lambda>t. Inl OtherError) (ascii ''hi'') = ascii ''en''"
    by blast
  from detect_language_total_and_script_first
         [of "\<lambda>t. Inr (ascii ''fr'')" "ascii ''bonjour''" OtherError]
  have 3: "detect_language (\<lambda>t. Inr (ascii ''fr'')) (ascii ''bonjour'')
             \<in> {ascii ''en'', ascii ''ar''}"
    by blast
  from 1 2 3 show ?thesis by blast
qed

section \<open>Properties of the conversation assembler\<close>

lemma append_history_map:
  "append_history contents msgs =
     contents @ map (\<lambda>msg. \<lparr>c_role = (if cm_role msg = ascii ''user'' then ascii ''user''
                                        else ascii ''model''),
                             c_parts = [cm_text msg]\<rparr>) msgs"
  by (induction msgs arbitrary: "contents") simp_all

text \<open>
  Claim C2. Whenever the system prompt of a request is composed without an exception,
  the list given to the model is: one \<open>user\<close> entry with the whole system prompt, then
  one entry per turn of the caller's history, in the caller's order, with role \<open>user\<close>
  for \<open>user\<close> and \<open>model\<close> for every other role, then one \<open>user\<close> entry with the
  stripped new message. Nothing is dropped, merged or moved.
\<close>

theorem chat_turn_sequence:
  assumes "compose_system_prompt env request
             (resolve_language (ce_detect env) (cr_language request) (cr_message request))
           = Inr (system_prompt, report)"
  shows "chat_contents env request =
           Inr ([\<lparr>c_role = ascii ''user'', c_parts = [system_prompt]\<rparr>]
                @ map (\<lambda>msg. \<lparr>c_role = (if cm_role msg = ascii ''user'' then ascii ''user''
                                           else ascii ''model''),
                                c_parts = [cm_text msg]\<rparr>)
                      (case cr_chat_history request of None \<Rightarrow> [] | Some h \<Rightarrow> h)
                @ [\<lparr>c_role = ascii ''user'', c_parts = [py_strip (cr_message request)]\<rparr>])"
  using assms
  by (simp add: chat_contents_def then_do_def build_contents_def append_history_map Let_def
        split: option.splits)

theorem chat_turn_sequence_witness:
  "chat_contents ex_chat_env ex_chat_request =
     Inr [\<lparr>c_role = ascii ''user'', c_parts = [ascii ''You are Dr. HealBot.'']\<rparr>,
          \<lparr>c_role = ascii ''user'', c_parts = [ascii ''I have a fever'']\<rparr>,
          \<lparr>c_role = ascii ''model'', c_parts = [ascii ''Since when?'']\<rparr>,
          \<lparr>c_role = ascii ''model'', c_parts = [ascii ''Since when?'']\<rparr>,
          \<lparr>c_role = ascii ''user'', c_parts = [ascii ''and today?'']\<rparr>]"
proof -
  have h: "compose_system_prompt ex_chat_env ex_chat_request
             (resolve_language (ce_detect ex_chat_env) (cr_language ex_chat_request)
                (cr_message ex_chat_request))
           = Inr (ascii ''You are Dr. HealBot.'', JNull)"
    by (simp add: compose_system_prompt_def resolve_language_def resolve_biomarker_report_def
          base_prompt_def ex_chat_env_def ex_chat_request_def opt_dict_def then_do_def Let_def)
  from chat_turn_sequence [OF h] show ?thesis
    by (simp add: ex_chat_request_def py_strip_example)
qed

text \<open>
  The handler calls the model on exactly that list: its \<open>try\<close> block is the
  construction of the list followed by the call and the response.
\<close>

lemma chat_try_sends_chat_contents:
  "chat_try env request =
     then_do (chat_contents env request) (\<lambda>contents.
       then_do (ce_generate env contents) (\<lambda>txt.
         Inr (JSONResponse
           (JObj [(ascii ''reply'', JStr (py_strip txt)),
                  (ascii ''detected_language'',
                     JStr (resolve_language (ce_detect env) (cr_language request) (cr_message request))),
                  (ascii ''response_language'', JStr (detect_language (ce_detect env) (py_strip txt))),
                  (ascii ''has_patient_data'', JBool (cr_patient_data request \<noteq> None)),
                  (ascii ''has_biomarker_report'',
                     JBool (resolve_biomarker_report env request \<noteq> JNull))])
           200)))"
proof (cases "compose_system_prompt env request
                (resolve_language (ce_detect env) (cr_language request) (cr_message request))")
  case (Inl e)
  then show ?thesis by (simp add: chat_try_def chat_contents_def then_do_def Let_def)
next
  case (Inr pr)
  obtain p r where pr: "pr = (p, r)" by (cases pr)
  from Inr pr have "r = resolve_biomarker_report env request"
    by (auto simp: compose_system_prompt_def then_do_def Let_def
             split: sum.splits option.splits if_splits)
  with Inr pr show ?thesis by (simp add: chat_try_def chat_contents_def then_do_def Let_def)
qed

section \<open>Properties of the context composer\<close>

lemma add_items_append:
  "add_items fmt bullet context xs =
     context @ concat (map (\<lambda>x. bullet @ py_format fmt x @ [10]) xs)"
  by (induction xs arbitrary: "context") simp_all

lemma add_numbered_prefix: "\<exists>rest. add_numbered fmt i context xs = context @ rest"
proof (induction xs arbitrary: i "context")
  case Nil
  show ?case by simp
next
  case (Cons x xs)
  from Cons [of "Suc i" "context @ dec i @ ascii ''. '' @ py_format fmt x @ [10]"]
  show ?case by auto
qed

lemma add_priorities_prefix:
  assumes "add_priorities fmt heading report context = Inr c"
  shows "\<exists>rest. c = context @ rest"
proof -
  have n: "\<And>xs. \<exists>rest. add_numbered fmt 1 (context @ heading) xs = context @ rest"
    using add_numbered_prefix [of fmt 1 "context @ heading"] by auto
  from assms show ?thesis
    using n by (auto simp: add_priorities_def then_do_def split: if_splits sum.splits)
qed

lemma format_biomarker_context_nonempty:
  assumes "truthy report" and "format_biomarker_context fmt report language = Inr c"
  shows "c \<noteq> []"
proof -
  from assms obtain r where
    c: "(if language = ascii ''ar'' then add_priorities fmt priorities_ar r lab_title_ar
         else add_priorities fmt priorities_en r lab_title_en) = Inr c"
    by (auto simp: format_biomarker_context_def then_do_def split: sum.splits)
  show ?thesis
  proof (cases "language = ascii ''ar''")
    case True
    with c add_priorities_prefix [of fmt priorities_ar r lab_title_ar c]
    show ?thesis by (auto simp: lab_title_ar_def)
  next
    case False
    with c add_priorities_prefix [of fmt priorities_en r lab_title_en c]
    show ?thesis by (auto simp: lab_title_en_def)
  qed
qed

lemma format_patient_history_nonempty:
  assumes "pd \<noteq> []" and "format_patient_history fmt pd language = Inr c"
  shows "c \<noteq> []"
proof -
  from assms obtain c0 where "c = c0 @ instructions"
    by (auto simp: format_patient_history_def then_do_def split: sum.splits if_splits)
  then show ?thesis by (simp add: instructions_def)
qed

lemma resolve_biomarker_report_no_patient [simp]:
  "resolve_biomarker_report env (request\<lparr>cr_patient_data := x\<rparr>) = resolve_biomarker_report env request"
  by (simp add: resolve_biomarker_report_def Let_def)

lemma resolve_biomarker_report_none [simp]:
  "resolve_biomarker_report env (request\<lparr>cr_biomarker_data := None, cr_biomarker_analysis := None\<rparr>) = JNull"
  by (simp add: resolve_biomarker_report_def opt_dict_def Let_def)

text \<open>
  The shape of a composed prompt, with the template named by \<open>base_prompt\<close>.
\<close>

lemma compose_system_prompt_blocks:
  assumes "compose_system_prompt env request lang = Inr (prompt, report)"
  shows "\<exists>patient_block biomarker_block.
           prompt = base_prompt env lang @ patient_block @ biomarker_block
         \<and> (patient_block \<noteq> [] \<longleftrightarrow> (\<exists>pd. cr_patient_data request = Some pd \<and> pd \<noteq> []))
         \<and> (\<forall>pd. cr_patient_data request = Some pd \<and> pd \<noteq> []
                \<longrightarrow> format_patient_history (ce_fmt env) pd lang = Inr patient_block)
         \<and> report = resolve_biomarker_report env request
         \<and> (biomarker_block \<noteq> [] \<longleftrightarrow> truthy report)
         \<and> (truthy report
                \<longrightarrow> format_biomarker_context (ce_fmt env) report lang = Inr biomarker_block)
         \<and> compose_system_prompt env (request\<lparr>cr_patient_data := None\<rparr>) lang
             = Inr (base_prompt env lang @ biomarker_block, report)
         \<and> compose_system_prompt env
               (request\<lparr>cr_biomarker_data := None, cr_biomarker_analysis := None\<rparr>) lang
             = Inr (base_prompt env lang @ patient_block, JNull)"
proof -
  define pb where "pb = (case cr_patient_data request of
                           None \<Rightarrow> []
                         | Some pd \<Rightarrow> if pd = [] then []
                                      else (case format_patient_history (ce_fmt env) pd lang of
                                              Inr c \<Rightarrow> c | Inl e \<Rightarrow> []))"
  define bb where "bb = (if truthy report
                         then (case format_biomarker_context (ce_fmt env) report lang of
                                 Inr c \<Rightarrow> c | Inl e \<Rightarrow> [])
                         else [])"
  have rep: "report = resolve_biomarker_report env request"
    using assms
    by (auto simp: compose_system_prompt_def then_do_def Let_def split: sum.splits option.splits if_splits)
  have p: "prompt = base_prompt env lang @ pb @ bb"
    using assms unfolding pb_def bb_def
    by (auto simp: compose_system_prompt_def then_do_def Let_def split: sum.splits option.splits if_splits)
  have fp: "\<forall>pd. cr_patient_data request = Some pd \<and> pd \<noteq> []
                \<longrightarrow> format_patient_history (ce_fmt env) pd lang = Inr pb"
    using assms unfolding pb_def
    by (auto simp: compose_system_prompt_def then_do_def Let_def split: sum.splits option.splits if_splits)
  have fb: "truthy report \<longrightarrow> format_biomarker_context (ce_fmt env) report lang = Inr bb"
    using assms unfolding bb_def
    by (auto simp: compose_system_prompt_def then_do_def Let_def split: sum.splits option.splits if_splits)
  have pne: "pb \<noteq> [] \<longleftrightarrow> (\<exists>pd. cr_patient_data request = Some pd \<and> pd \<noteq> [])"
  proof
    assume "pb \<noteq> []"
    then show "\<exists>pd. cr_patient_data request = Some pd \<and> pd \<noteq> []"
      unfolding pb_def by (auto split: option.splits if_splits)
  next
    assume "\<exists>pd. cr_patient_data request = Some pd \<and> pd \<noteq> []"
    then obtain pd where pd: "cr_patient_data request = Some pd" "pd \<noteq> []" by blast
    with fp have "format_patient_history (ce_fmt env) pd lang = Inr pb" by blast
    with pd show "pb \<noteq> []" using format_patient_history_nonempty by blast
  qed
  have bne: "bb \<noteq> [] \<longleftrightarrow> truthy report"
  proof
    assume "bb \<noteq> []"
    then show "truthy report" unfolding bb_def by (auto split: if_splits)
  next
    assume t: "truthy report"
    with fb have "format_biomarker_context (ce_fmt env) report lang = Inr bb" by blast
    with t show "bb \<noteq> []" using format_biomarker_context_nonempty by blast
  qed
  have nop: "compose_system_prompt env (request\<lparr>cr_patient_data := None\<rparr>) lang
             = Inr (base_prompt env lang @ bb, report)"
    using rep fb bne by (auto simp: compose_system_prompt_def then_do_def Let_def)
  have nob: "compose_system_prompt env
               (request\<lparr>cr_biomarker_data := None, cr_biomarker_analysis := None\<rparr>) lang
             = Inr (base_prompt env lang @ pb, JNull)"
    using fp pne
    by (cases "cr_patient_data request")
       (auto simp: compose_system_prompt_def then_do_def Let_def)
  from p pne fp rep bne fb nop nob show ?thesis by blast
qed

text \<open>
  Claim C3. A system prompt that is composed for the language \<open>lang\<close> is the Arabic
  template when \<open>lang\<close> is \<open>ar\<close> and the English template otherwise, then the patient
  block, then the biomarker block, in this order. The patient block is there exactly when
  the request has a non-empty patient record, and is what \<open>format_patient_history\<close>
  returns for it in that language; the biomarker block is there exactly when a biomarker
  report is in use (given by the caller or computed, and not empty), and is what
  \<open>format_biomarker_context\<close> returns for it in that language. The same request without
  its patient record gives the same template followed by the same biomarker block, and
  without its biomarker input the same template followed by the same patient block:
  adding either only adds its block, after the template, and changes nothing else.
\<close>

theorem compose_system_prompt_append_only:
  assumes "compose_system_prompt env request lang = Inr (prompt, report)"
  shows "\<exists>patient_block biomarker_block.
           prompt = (if lang = ascii ''ar'' then ce_prompt_ar env else ce_prompt_en env)
                    @ patient_block @ biomarker_block
         \<and> (patient_block \<noteq> [] \<longleftrightarrow> (\<exists>pd. cr_patient_data request = Some pd \<and> pd \<noteq> []))
         \<and> (\<forall>pd. cr_patient_data request = Some pd \<and> pd \<noteq> []
                \<longrightarrow> format_patient_history (ce_fmt env) pd lang = Inr patient_block)
         \<and> report = resolve_biomarker_report env request
         \<and> (biomarker_block \<noteq> [] \<longleftrightarrow> truthy report)
         \<and> (truthy report
                \<longrightarrow> format_biomarker_context (ce_fmt env) report lang = Inr biomarker_block)
         \<and> compose_system_prompt env (request\<lparr>cr_patient_data := None\<rparr>) lang
             = Inr ((if lang = ascii ''ar'' then ce_prompt_ar env else ce_prompt_en env)
                    @ biomarker_block, report)
         \<and> compose_system_prompt env
               (request\<lparr>cr_biomarker_data := None, cr_biomarker_analysis := None\<rparr>) lang
             = Inr ((if lang = ascii ''ar'' then ce_prompt_ar env else ce_prompt_en env)
                    @ patient_block, JNull)"
proof -
  have b: "base_prompt env lang
             = (if lang = ascii ''ar'' then ce_prompt_ar env else ce_prompt_en env)"
    by (simp add: base_prompt_def)
  from compose_system_prompt_blocks [OF assms] show ?thesis
    unfolding b .
qed

theorem compose_system_prompt_append_only_witness:
  "(\<exists>prompt report patient_block biomarker_block.
      compose_system_prompt ex_chat_env ex_context_request (ascii ''en'') = Inr (prompt, report)
    \<and> prompt = ascii ''You are Dr. HealBot.'' @ patient_block @ biomarker_block
    \<and> patient_block \<noteq> [] \<and> biomarker_block \<noteq> []
    \<and> compose_system_prompt ex_chat_env (ex_context_request\<lparr>cr_patient_data := None\<rparr>) (ascii ''en'')
        = Inr (ascii ''You are Dr. HealBot.'' @ biomarker_block, report))
   \<and> (\<exists>prompt report patient_block biomarker_block.
      compose_system_prompt ex_chat_env ex_context_request (ascii ''ar'') = Inr (prompt, report)
    \<and> prompt = [1571, 1606, 1578] @ patient_block @ biomarker_block
    \<and> patient_block \<noteq> [] \<and> biomarker_block \<noteq> []
    \<and> compose_system_prompt ex_chat_env (ex_context_request\<lparr>cr_patient_data := None\<rparr>) (ascii ''ar'')
        = Inr ([1571, 1606, 1578] @ biomarker_block, report))"
proof -
  have ex: "\<And>lang. \<exists>prompt report.
          compose_system_prompt ex_chat_env ex_context_request lang = Inr (prompt, report)"
    by (simp add: compose_system_prompt_def resolve_biomarker_report_def base_prompt_def
          ex_chat_env_def ex_context_request_def opt_dict_def then_do_def Let_def
          format_patient_history_def add_personal_info_def add_list_section_def
          add_visits_section_def add_vitals_section_def dict_get_def
          format_biomarker_context_def add_priorities_def)
  have t: "truthy (resolve_biomarker_report ex_chat_env ex_context_request)"
    by (simp add: resolve_biomarker_report_def ex_context_request_def opt_dict_def)
  have p: "\<exists>pd. cr_patient_data ex_context_request = Some pd \<and> pd \<noteq> []"
    by (simp add: ex_context_request_def)
  have en: "ce_prompt_en ex_chat_env = ascii ''You are Dr. HealBot.''"
    and ar: "ce_prompt_ar ex_chat_env = [1571, 1606, 1578]"
    by (simp_all add: ex_chat_env_def)
  from ex [of "ascii ''en''"] obtain prompt_en report_en where
    h_en: "compose_system_prompt ex_chat_env ex_context_request (ascii ''en'')
             = Inr (prompt_en, report_en)"
    by blast
  from ex [of "ascii ''ar''"] obtain prompt_ar report_ar where
    h_ar: "compose_system_prompt ex_chat_env ex_context_request (ascii ''ar'')
             = Inr (prompt_ar, report_ar)"
    by blast
  from compose_system_prompt_append_only [OF h_en] h_en t p en
  have 1: "\<exists>prompt report patient_block biomarker_block.
      compose_system_prompt ex_chat_env ex_context_request (ascii ''en'') = Inr (prompt, report)
    \<and> prompt = ascii ''You are Dr. HealBot.'' @ patient_block @ biomarker_block
    \<and> patient_block \<noteq> [] \<and> biomarker_block \<noteq> []
    \<and> compose_system_prompt ex_chat_env (ex_context_request\<lparr>cr_patient_data := None\<rparr>) (ascii ''en'')
        = Inr (ascii ''You are Dr. HealBot.'' @ biomarker_block, report)"
    by force
  from compose_system_prompt_append_only [OF h_ar] h_ar t p ar
  have 2: "\<exists>prompt report patient_block biomarker_block.
      compose_system_prompt ex_chat_env ex_context_request (ascii ''ar'') = Inr (prompt, report)
    \<and> prompt = [1571, 1606, 1578] @ patient_block @ biomarker_block
    \<and> patient_block \<noteq> [] \<and> biomarker_block \<noteq> []
    \<and> compose_system_prompt ex_chat_env (ex_context_request\<lparr>cr_patient_data := None\<rparr>) (ascii ''ar'')
        = Inr ([1571, 1606, 1578] @ biomarker_block, report)"
    by force
  from 1 2 show ?thesis by blast
qed

text \<open>
  In the handler the language is the one resolved from the request: the first entry of
  the list given to the model starts with the template of that language.
\<close>

lemma chat_contents_template:
  assumes "chat_contents env request = Inr cs"
  shows "\<exists>rest more.
           cs = \<lparr>c_role = ascii ''user'',
                 c_parts = [(if resolve_language (ce_detect env) (cr_language request)
                                  (cr_message request) = ascii ''ar''
                             then ce_prompt_ar env else ce_prompt_en env) @ rest]\<rparr> # more"
proof -
  let ?lang = "resolve_language (ce_detect env) (cr_language request) (cr_message request)"
  from assms obtain prompt report where
    c: "compose_system_prompt env request ?lang = Inr (prompt, report)"
    and cs: "cs = build_contents prompt (cr_chat_history request) (cr_message request)"
    by (auto simp: chat_contents_def then_do_def Let_def split: sum.splits)
  from compose_system_prompt_blocks [OF c] obtain pb bb where
    "prompt = base_prompt env ?lang @ pb @ bb" by blast
  then have "prompt = (if ?lang = ascii ''ar'' then ce_prompt_ar env else ce_prompt_en env)
                      @ (pb @ bb)"
    by (simp add: base_prompt_def)
  with cs show ?thesis
    by (simp add: build_contents_def append_history_map Let_def split: option.splits)
qed

section \<open>Properties of the patient block\<close>

lemma dict_get_append_other:
  "k \<noteq> k' \<Longrightarrow> dict_get (pd @ [(k', v)]) k = dict_get pd k"
  by (simp add: dict_get_def map_add_def split: option.splits)

lemma add_personal_info_other_key:
  "ascii ''personal_info'' \<noteq> k' \<Longrightarrow>
     add_personal_info fmt l1 l2 l3 (pd @ [(k', v)]) c = add_personal_info fmt l1 l2 l3 pd c"
  by (simp add: add_personal_info_def dict_get_append_other)

lemma add_list_section_other_key:
  "k \<noteq> k' \<Longrightarrow>
     add_list_section fmt k heading bullet (pd @ [(k', v)]) c = add_list_section fmt k heading bullet pd c"
  by (simp add: add_list_section_def dict_get_append_other)

lemma add_visits_section_other_key:
  "ascii ''previous_visits'' \<noteq> k' \<Longrightarrow>
     add_visits_section fmt n heading bullet (pd @ [(k', v)]) = add_visits_section fmt n heading bullet pd"
  by (rule ext) (simp add: add_visits_section_def dict_get_append_other)

text \<open>
  The visits section lists the last \<open>n\<close> visits of a list of visits (three in the
  Arabic branch, five in the English one), in their order.
\<close>

lemma add_visits_section_list:
  assumes "dict_get pd (ascii ''previous_visits'') = JList vs" and "vs \<noteq> []"
  shows "add_visits_section fmt n heading bullet pd c =
           Inr (c @ heading
                @ concat (map (\<lambda>x. bullet @ py_format fmt x @ [10]) (drop (length vs - n) vs)))"
  using assms by (simp add: add_visits_section_def then_do_def add_items_append)

text \<open>A list section has one line for every element of its list.\<close>

lemma add_list_section_list:
  assumes "dict_get pd key = JList xs" and "xs \<noteq> []"
  shows "add_list_section fmt key heading bullet pd c =
           Inr (c @ heading @ concat (map (\<lambda>x. bullet @ py_format fmt x @ [10]) xs))"
  using assms by (simp add: add_list_section_def then_do_def add_items_append)

text \<open>
  In the Arabic branch an entry \<open>vital_signs\<close> of the record changes nothing: the block
  is the one of the record without it.
\<close>

lemma format_patient_history_ar_ignores_vitals:
  assumes "pd \<noteq> []"
  shows "format_patient_history fmt (pd @ [(ascii ''vital_signs'', v)]) (ascii ''ar'')
           = format_patient_history fmt pd (ascii ''ar'')"
  using assms
  by (simp add: format_patient_history_def add_personal_info_other_key
        add_list_section_other_key add_visits_section_other_key)

text \<open>
  Claim C5, at the record \<open>{"vital_signs": {"bp": "120/80"}}\<close>. For the language
  \<open>ar\<close> the patient block is the heading followed at once by the closing instructions:
  it has no line for the vital signs. For \<open>en\<close> the same record gives the heading,
  the section of the vital signs with the line of \<open>bp\<close>, and the closing instructions.
\<close>

theorem arabic_block_has_no_vitals:
  "format_patient_history fmt
     [(ascii ''vital_signs'', JObj [(ascii ''bp'', JStr (ascii ''120/80''))])] (ascii ''ar'')
     = Inr ([10, 10] @ rule50 @ [10] @ title_ar @ rule50 @ [10] @ instructions)
   \<and> format_patient_history fmt
     [(ascii ''vital_signs'', JObj [(ascii ''bp'', JStr (ascii ''120/80''))])] (ascii ''en'')
     = Inr ([10, 10] @ rule50 @ [10] @ title_en @ rule50 @ [10]
            @ vitals_en @ bullet_en @ ascii ''bp'' @ ascii '': '' @ ascii ''120/80'' @ [10]
            @ instructions)"
  by (simp add: format_patient_history_def add_personal_info_def add_list_section_def
        add_visits_section_def add_vitals_section_def then_do_def dict_get_def)

section \<open>Properties of text to speech\<close>

text \<open>
  A text with a code point in U+0600-U+06FF is synthesised and reported as \<open>ar\<close>,
  whatever language the caller asked for.
\<close>

lemma tts_basic_block_forces_ar:
  assumes "\<exists>c \<in> set (tr_text req). 0x0600 \<le> c \<and> c \<le> 0x06FF"
  shows "tts_language detect req = ascii ''ar''"
  using assms by (auto simp: tts_language_def basic_arabic_search_def list_ex_iff Let_def)

text \<open>With \<open>language_code = "auto"\<close> the three ranges of \<open>detect_language\<close> count.\<close>

lemma tts_auto_forces_ar:
  assumes "arabic_pattern_search (tr_text req)" and "tr_language_code req = Some (ascii ''auto'')"
  shows "tts_language detect req = ascii ''ar''"
  using assms
  by (simp add: tts_language_def resolve_language_def detect_language_def detect_language_try_def Let_def)

text \<open>
  Claim C4, at the request with text U+0750 (a letter of the Arabic Supplement block,
  which \<open>detect_language\<close> takes for Arabic script) and \<open>language_code = "en"\<close>: the
  language that the handler resolves is \<open>en\<close>, and the response carries
  \<open>X-Language: en\<close> and the English default voice.
\<close>

theorem tts_supplement_text_keeps_english:
  "arabic_pattern_search [0x0750]
   \<and> tts_language detect \<lparr>tr_text = [0x0750], tr_language_code = Some (ascii ''en''), tr_voice = None\<rparr>
       = ascii ''en''
   \<and> text_to_speech detect (\<lambda>txt voice. Inr [(ascii ''audio'', [73, 68, 51])])
        \<lparr>tr_text = [0x0750], tr_language_code = Some (ascii ''en''), tr_voice = None\<rparr>
       = StreamingResponse [73, 68, 51]
           [(ascii ''Content-Disposition'', ascii ''inline; filename=speech.mp3''),
            (ascii ''X-Language'', ascii ''en''),
            (ascii ''X-Voice'', ascii ''en-US-AriaNeural''),
            (ascii ''Cache-Control'', ascii ''no-cache'')]"
  by (simp add: arabic_pattern_search_def arabic_char_def tts_language_def resolve_language_def
        basic_arabic_search_def text_to_speech_def text_to_speech_try_def tts_voice_def
        EDGE_TTS_VOICES_def then_do_def Let_def)

section \<open>Properties of speech to text\<close>

text \<open>The example recogniser ignores the audio.\<close>

lemma feed_frames_ignore: "feed_frames (\<lambda>r data. r) r frames = r"
proof (induction "\<lambda>(r::'a) (data::nat list). r" r frames rule: feed_frames.induct)
  case (1 recognizer frames)
  then show ?case by (subst feed_frames.simps) (simp add: Let_def)
qed

text \<open>
  Claim C6. When the handler reaches recognition (the upload is stored, ffmpeg exits
  with 0 and has written its output, the file is mono with 16-bit samples, the recogniser
  is built) and the final result is a JSON object whose \<open>text\<close> is the string
  \<open>t\<close> (or is absent, which counts as the empty string), the response has status code
  200 and carries the stripped transcript, with status \<open>no_speech\<close> when that is empty
  and \<open>success\<close> when it is not.
\<close>

theorem stt_status_by_transcript:
  assumes "STT_AVAILABLE env"
    and "se_upload env = UploadStored"
    and "se_ffmpeg env = FfmpegExit 0 True"
    and "se_wave env = WaveOpened 1 2 framerate frames"
    and "kaldi_new (se_recognizer env) (stt_model (stt_detected_language language)) framerate = Inr r0"
    and "final_result (se_recognizer env)
           (feed_frames (accept_waveform (se_recognizer env)) r0 frames) = Inr (JObj d)"
    and "dict_get_default d (ascii ''text'') (JStr []) = JStr t"
  shows "fst (speech_to_text env language fs) =
           JSONResponse
             (JObj [(ascii ''transcript'', JStr (py_strip t)),
                    (ascii ''detected_language'', JStr (stt_detected_language language)),
                    (ascii ''status'',
                       JStr (if py_strip t = [] then ascii ''no_speech'' else ascii ''success''))])
             200"
  using assms
  by (simp add: speech_to_text_def speech_to_text_try_def store_upload_def recognize_def
        then_do_def Let_def)

theorem stt_status_by_transcript_witness:
  "fst (speech_to_text ex_stt_env (ascii ''en'') {}) =
     JSONResponse
       (JObj [(ascii ''transcript'', JStr (ascii ''hello'')),
              (ascii ''detected_language'', JStr (ascii ''en'')),
              (ascii ''status'', JStr (ascii ''success''))])
       200
   \<and> fst (speech_to_text ex_stt_env (ascii ''ar'') {}) =
     JSONResponse
       (JObj [(ascii ''transcript'', JStr []),
              (ascii ''detected_language'', JStr (ascii ''ar'')),
              (ascii ''status'', JStr (ascii ''no_speech''))])
       200"
proof -
  have a: "STT_AVAILABLE ex_stt_env" "se_upload ex_stt_env = UploadStored"
    "se_ffmpeg ex_stt_env = FfmpegExit 0 True"
    "se_wave ex_stt_env = WaveOpened 1 2 16000 [[0, 0], [1, 0]]"
    by (simp_all add: ex_stt_env_def)
  have k: "\<And>language. kaldi_new (se_recognizer ex_stt_env)
             (stt_model (stt_detected_language language)) 16000
           = Inr (stt_model (stt_detected_language language))"
    by (simp add: ex_stt_env_def ex_recognizer_def)
  have f_en: "final_result (se_recognizer ex_stt_env)
           (feed_frames (accept_waveform (se_recognizer ex_stt_env))
              (stt_model (stt_detected_language (ascii ''en''))) [[0, 0], [1, 0]])
         = Inr (JObj [(ascii ''text'', JStr (ascii '' hello ''))])"
    by (simp add: ex_stt_env_def ex_recognizer_def feed_frames_ignore stt_model_def
          stt_detected_language_def)
  have f_ar: "final_result (se_recognizer ex_stt_env)
           (feed_frames (accept_waveform (se_recognizer ex_stt_env))
              (stt_model (stt_detected_language (ascii ''ar''))) [[0, 0], [1, 0]])
         = Inr (JObj [(ascii ''text'', JStr (ascii ''  ''))])"
    by (simp add: ex_stt_env_def ex_recognizer_def feed_frames_ignore stt_model_def
          stt_detected_language_def)
  have d_en: "dict_get_default [(ascii ''text'', JStr (ascii '' hello ''))] (ascii ''text'') (JStr [])
           = JStr (ascii '' hello '')"
    by (simp add: dict_get_default_def)
  have d_ar: "dict_get_default [(ascii ''text'', JStr (ascii ''  ''))] (ascii ''text'') (JStr [])
           = JStr (ascii ''  '')"
    by (simp add: dict_get_default_def)
  note s_en = py_strip_hello and s_ar = py_strip_blanks
  from stt_status_by_transcript [OF a k f_en d_en, of "{}"]
       stt_status_by_transcript [OF a k f_ar d_ar, of "{}"]
  show ?thesis
    by (simp add: s_en s_ar stt_detected_language_def)
qed

text \<open>
  Claim C7, as amended. Take any request for which recognition is available, the two
  temporary names are not empty and name no existing file, and the upload is not
  interrupted between the creation of its file and the assignment of
  \<open>tmp_input_path\<close>. If \<open>os.remove\<close> does not fail on the two names, then on every
  way out of the handler (success, failed conversion, invalid format, timeout, any other
  exception) neither temporary file exists when the handler has returned, and the file
  system is as it was before the request.
\<close>

theorem stt_temp_files_removed:
  assumes "STT_AVAILABLE env"
    and "se_upload env \<noteq> UploadWriteFails"
    and "se_input_path env \<noteq> []" and "se_wav_path env \<noteq> []"
    and "se_input_path env \<notin> fs" and "se_wav_path env \<notin> fs"
    and "\<not> se_remove_fails env (se_input_path env)"
    and "\<not> se_remove_fails env (se_wav_path env)"
  shows "se_input_path env \<notin> snd (speech_to_text env language fs)
         \<and> se_wav_path env \<notin> snd (speech_to_text env language fs)
         \<and> snd (speech_to_text env language fs) = fs"
proof -
  from assms have "snd (speech_to_text env language fs) = fs"
    by (cases "se_upload env"; cases "se_ffmpeg env")
       (auto simp: speech_to_text_def speech_to_text_try_def store_upload_def Let_def
             split: if_splits)
  with assms(5,6) show ?thesis by simp
qed

theorem stt_temp_files_removed_witness:
  "snd (speech_to_text ex_stt_env (ascii ''en'') {}) = {}
   \<and> snd (speech_to_text (ex_stt_env\<lparr>se_ffmpeg := FfmpegTimeout True\<rparr>) (ascii ''en'') {}) = {}
   \<and> snd (speech_to_text (ex_stt_env\<lparr>se_wave := WaveOpened 2 2 44100 []\<rparr>) (ascii ''en'') {}) = {}"
proof -
  have a: "\<And>e. e = ex_stt_env \<or> e = ex_stt_env\<lparr>se_ffmpeg := FfmpegTimeout True\<rparr>
              \<or> e = ex_stt_env\<lparr>se_wave := WaveOpened 2 2 44100 []\<rparr> \<Longrightarrow>
     STT_AVAILABLE e \<and> se_upload e \<noteq> UploadWriteFails \<and> se_input_path e \<noteq> []
     \<and> se_wav_path e \<noteq> [] \<and> se_input_path e \<notin> {} \<and> se_wav_path e \<notin> {}
     \<and> \<not> se_remove_fails e (se_input_path e) \<and> \<not> se_remove_fails e (se_wav_path e)"
    by (auto simp: ex_stt_env_def)
  from a [of ex_stt_env] stt_temp_files_removed [of ex_stt_env "{}" "ascii ''en''"]
  have 1: "snd (speech_to_text ex_stt_env (ascii ''en'') {}) = {}" by blast
  from a [of "ex_stt_env\<lparr>se_ffmpeg := FfmpegTimeout True\<rparr>"]
       stt_temp_files_removed [of "ex_stt_env\<lparr>se_ffmpeg := FfmpegTimeout True\<rparr>" "{}" "ascii ''en''"]
  have 2: "snd (speech_to_text (ex_stt_env\<lparr>se_ffmpeg := FfmpegTimeout True\<rparr>) (ascii ''en'') {}) = {}"
    by blast
  from a [of "ex_stt_env\<lparr>se_wave := WaveOpened 2 2 44100 []\<rparr>"]
       stt_temp_files_removed [of "ex_stt_env\<lparr>se_wave := WaveOpened 2 2 44100 []\<rparr>" "{}" "ascii ''en''"]
  have 3: "snd (speech_to_text (ex_stt_env\<lparr>se_wave := WaveOpened 2 2 44100 []\<rparr>) (ascii ''en'') {}) = {}"
    by blast
  from 1 2 3 show ?thesis by blast
qed

text \<open>
  Claim C7 as stated fails: the \<open>finally\<close> block swallows a failure of
  \<open>os.remove\<close>. Take the way out through the format check, on which the wave reader
  is never closed, with an \<open>os.remove\<close> that fails on the transcoded file (as it does
  where an open file cannot be removed): the handler answers 400, the raw upload is
  removed, and the transcoded file is still there.
\<close>

theorem stt_failed_remove_leaves_file:
  "fst (speech_to_text
          (ex_stt_env\<lparr>se_wave := WaveOpened 2 2 44100 [],
                      se_remove_fails := (\<lambda>p. p = ascii ''/tmp/out.wav'')\<rparr>)
          (ascii ''en'') {})
     = JSONResponse (JObj [(ascii ''error'', JStr (ascii ''Invalid WAV format''))]) 400
   \<and> snd (speech_to_text
          (ex_stt_env\<lparr>se_wave := WaveOpened 2 2 44100 [],
                      se_remove_fails := (\<lambda>p. p = ascii ''/tmp/out.wav'')\<rparr>)
          (ascii ''en'') {})
     = {ascii ''/tmp/out.wav''}"
  by (auto simp: speech_to_text_def speech_to_text_try_def store_upload_def recognize_def
        ex_stt_env_def Let_def)

text \<open>
  The path left out above: when reading or writing the upload raises, the file made by
  \<open>NamedTemporaryFile\<close> exists but \<open>tmp_input_path\<close> is still \<open>None\<close>, and the
  \<open>finally\<close> block does not remove it.
\<close>

lemma stt_interrupted_upload_leaves_file:
  assumes "STT_AVAILABLE env" and "se_upload env = UploadWriteFails"
  shows "fst (speech_to_text env language fs) = ErrorResponse OtherError 500
         \<and> se_input_path env \<in> snd (speech_to_text env language fs)"
  using assms
  by (simp add: speech_to_text_def speech_to_text_try_def store_upload_def)

text \<open>
  Claim C8, at the language parameter \<open>fr\<close> on a request that is recognised: the
  English model is the one selected (the transcript is the one the English model of the
  example hears), and the response reports \<open>detected_language\<close> as \<open>fr\<close>, which is
  neither \<open>en\<close> nor \<open>ar\<close>.
\<close>

theorem stt_unknown_language_is_echoed:
  "stt_model (stt_detected_language (ascii ''fr'')) = vosk_model_en
   \<and> fst (speech_to_text ex_stt_env (ascii ''fr'') {}) =
       JSONResponse
         (JObj [(ascii ''transcript'', JStr (ascii ''hello'')),
                (ascii ''detected_language'', JStr (ascii ''fr'')),
                (ascii ''status'', JStr (ascii ''success''))])
         200"
proof -
  have m: "stt_model (stt_detected_language (ascii ''fr'')) = vosk_model_en"
    by (simp add: stt_model_def stt_detected_language_def)
  note s = py_strip_hello
  have "fst (speech_to_text ex_stt_env (ascii ''fr'') {}) =
       JSONResponse
         (JObj [(ascii ''transcript'', JStr (py_strip (ascii '' hello ''))),
                (ascii ''detected_language'', JStr (ascii ''fr'')),
                (ascii ''status'', JStr (ascii ''success''))])
         200"
    by (simp add: speech_to_text_def speech_to_text_try_def store_upload_def recognize_def
          ex_stt_env_def ex_recognizer_def then_do_def Let_def stt_model_def dict_get_default_def
          stt_detected_language_def s feed_frames_ignore)
  with m s show ?thesis by simp
qed

section \<open>Properties of the chat history store\<close>

text \<open>Two turn sequences with the same JSON form are the same sequence.\<close>

lemma history_json_inj: "inj history_json"
proof (rule injI)
  fix xs ys :: "ChatMessage list"
  assume "history_json xs = history_json ys"
  then have "map (\<lambda>msg. (cm_role msg, cm_text msg)) xs = map (\<lambda>msg. (cm_role msg, cm_text msg)) ys"
    unfolding history_json_def
  proof (induction xs arbitrary: ys)
    case Nil
    then show ?case by simp
  next
    case (Cons x xs)
    then obtain y ys' where "ys = y # ys'" by (cases ys) auto
    with Cons show ?case by auto
  qed
  moreover have "inj (\<lambda>msg::ChatMessage. (cm_role msg, cm_text msg))"
    by (rule injI) simp
  ultimately show "xs = ys" by (simp add: inj_map_eq_map)
qed

lemma save_data_eq:
  "save_data env request =
     [(ascii ''patient_name'', JStr (sr_patient_name request)),
      (ascii ''chat_history'', history_json (sr_chat_history request)),
      (ascii ''message_count'', JInt (int (length (sr_chat_history request)))),
      (ascii ''last_updated'', JStr (he_now env))]"
  by (simp add: save_data_def)

text \<open>A document written by the save handler has strings and integers only.\<close>

lemma json_finite_history_json: "json_finite (history_json h)"
  by (induction h) (simp_all add: history_json_def)

lemma json_finite_save_data: "json_finite (JObj (save_data env request))"
  by (simp add: save_data_eq json_finite_history_json)

text \<open>
  Claim C9. When saving a transcript succeeds (the save handler answers 200) and the
  file can then be opened for reading, loading for the same patient name answers 200 with
  the document saved: the name, the turns with their roles and texts in the order given,
  their count, and under \<open>last_updated\<close> the string that
  \<open>datetime.now().isoformat()\<close> gave at the time of saving.
\<close>

theorem save_then_load_round_trip:
  assumes "fst (save_chat_history env request files) = JSONResponse body 200"
    and "\<not> he_read_fails env (chat_file_of env (sr_patient_name request))"
  shows "get_chat_history env (sr_patient_name request) (snd (save_chat_history env request files)) =
           JSONResponse
             (JObj [(ascii ''patient_name'', JStr (sr_patient_name request)),
                    (ascii ''chat_history'',
                       JList (map (\<lambda>msg. JObj [(ascii ''role'', JStr (cm_role msg)),
                                                 (ascii ''text'', JStr (cm_text msg))])
                                (sr_chat_history request))),
                    (ascii ''message_count'', JInt (int (length (sr_chat_history request)))),
                    (ascii ''last_updated'', JStr (he_now env))])
             200"
proof -
  from assms(1) have w: "he_write env (chat_file_of env (sr_patient_name request)) = WriteOk"
    by (simp add: save_chat_history_def Let_def split: write_outcome.splits)
  then have s: "snd (save_chat_history env request files) =
      files(chat_file_of env (sr_patient_name request) \<mapsto> JsonDoc (JObj (save_data env request)))"
    by (simp add: save_chat_history_def Let_def)
  have l: "py_len (dict_get_default (save_data env request) (ascii ''chat_history'') (JList []))
             = Inr (length (sr_chat_history request))"
    by (simp add: save_data_eq dict_get_default_def history_json_def)
  have "get_chat_history env (sr_patient_name request) (snd (save_chat_history env request files))
          = JSONResponse (JObj (save_data env request)) 200"
    using assms(2) json_finite_save_data [of env request]
    by (simp add: s get_chat_history_def get_chat_history_try_def chat_file_exists_def
          then_do_def l Let_def)
  then show ?thesis
    by (simp add: save_data_eq history_json_def)
qed

theorem save_then_load_round_trip_witness:
  "get_chat_history ex_hist_env (ascii ''alice'')
     (snd (save_chat_history ex_hist_env ex_save_request Map.empty)) =
   JSONResponse
     (JObj [(ascii ''patient_name'', JStr (ascii ''alice'')),
            (ascii ''chat_history'',
               JList [JObj [(ascii ''role'', JStr (ascii ''user'')), (ascii ''text'', JStr (ascii ''hi''))],
                      JObj [(ascii ''role'', JStr (ascii ''model'')), (ascii ''text'', JStr (ascii ''hello''))]]),
            (ascii ''message_count'', JInt 2),
            (ascii ''last_updated'', JStr (ascii ''2025-01-01T12:00:00.000000''))])
     200"
proof -
  have a: "fst (save_chat_history ex_hist_env ex_save_request Map.empty) =
             JSONResponse
               (JObj [(ascii ''success'', JBool True),
                      (ascii ''patient_name'', JStr (ascii ''alice'')),
                      (ascii ''message_count'', JInt 2),
                      (ascii ''file'', JStr (ascii ''patient_histories/alice_chat.json''))])
               200"
    by (simp add: save_chat_history_def ex_hist_env_def ex_save_request_def chat_file_of_def
          Let_def ascii_def)
  have b: "\<not> he_read_fails ex_hist_env (chat_file_of ex_hist_env (sr_patient_name ex_save_request))"
    by (simp add: ex_hist_env_def)
  from save_then_load_round_trip [OF a b] show ?thesis
    by (simp add: ex_save_request_def ex_hist_env_def)
qed

text \<open>
  Claim C10, as amended. When there is no transcript file for a patient name and the
  existence test of the file returns (it does not raise), loading answers 200 with the
  name, an empty \<open>chat_history\<close> and \<open>message_count\<close> 0.
\<close>

theorem load_without_transcript:
  assumes "files (chat_file_of env patient_name) = None"
    and "\<not> he_exists_fails env (chat_file_of env patient_name)"
  shows "get_chat_history env patient_name files =
           JSONResponse
             (JObj [(ascii ''patient_name'', JStr patient_name),
                    (ascii ''chat_history'', JList []),
                    (ascii ''message_count'', JInt 0)])
             200"
  using assms
  by (simp add: get_chat_history_def get_chat_history_try_def chat_file_exists_def
        then_do_def Let_def)

theorem load_without_transcript_witness:
  "get_chat_history ex_hist_env (ascii ''bob'') Map.empty =
     JSONResponse
       (JObj [(ascii ''patient_name'', JStr (ascii ''bob'')),
              (ascii ''chat_history'', JList []),
              (ascii ''message_count'', JInt 0)])
       200"
proof -
  have a: "Map.empty (chat_file_of ex_hist_env (ascii ''bob'')) = (None :: file_content option)"
    by simp
  have b: "\<not> he_exists_fails ex_hist_env (chat_file_of ex_hist_env (ascii ''bob''))"
    by (simp add: ex_hist_env_def chat_file_of_def ascii_def)
  from load_without_transcript [OF a b] show ?thesis .
qed

text \<open>
  Claim C10 as stated fails: the existence test is inside the \<open>try\<close> block. For a
  name of 300 characters the file name has more than 255 bytes, \<open>exists()\<close> raises
  \<open>OSError\<close> (\<open>ENAMETOOLONG\<close>) although no transcript was saved for the name, and the
  handler answers 500.
\<close>

theorem load_long_name_without_transcript_is_error:
  "Map.empty (chat_file_of ex_hist_env (replicate 300 97)) = (None :: file_content option)
   \<and> get_chat_history ex_hist_env (replicate 300 97) Map.empty = ErrorResponse OSError 500"
  by (simp add: get_chat_history_def get_chat_history_try_def chat_file_exists_def
        then_do_def Let_def ex_hist_env_def chat_file_of_def ascii_def)

end
